theory Spec2Isabelle
  imports Complex_Main
begin

text \<open>
  A model of the multiplayer racing game: the snapshot serialiser, the server's physics
  engine and room, the room manager, the leaderboard manager, and the client's predictor
  with its handling of snapshots. Each definition follows the source function of the same
  name; a value that the source takes from the clock or from the identifier generator is
  an argument of the model. The properties are at the end, one subsection per claim.
\<close>

section \<open>Numbers\<close>

text \<open>
  JavaScript numbers that carry positions, velocities, angles and track dimensions are
  modelled as exact reals (no rounding error, no overflow, no NaN); counters, sequence
  numbers and millisecond clock values, which the program only ever adds, subtracts and
  compares, are modelled as integers. The snapshot serialiser is given a second time with
  the rounding and the overflow of doubles written out, for the property that depends on
  them (the round trip of a snapshot).
\<close>

definition Math_round :: "real \<Rightarrow> int" where
  \<comment> \<open>\<^verbatim>\<open>Math.round\<close>: the nearest integer, ties towards plus infinity.\<close>
  "Math_round v = \<lfloor>v + 1 / 2\<rfloor>"



definition or_zero :: "real \<Rightarrow> real" where
  \<comment> \<open>\<^verbatim>\<open>v || 0\<close> on a number.\<close>
  "or_zero v = (if v = 0 then 0 else v)"

definition nth_opt :: "'a list \<Rightarrow> int \<Rightarrow> 'a option" where
  \<comment> \<open>Array indexing: \<^verbatim>\<open>undefined\<close> outside the array.\<close>
  "nth_opt xs i = (if 0 \<le> i \<and> i < int (length xs) then Some (xs ! nat i) else None)"

fun findIndex :: "('a \<Rightarrow> bool) \<Rightarrow> 'a list \<Rightarrow> int" where
  "findIndex p [] = -1"
| "findIndex p (a # as) =
     (if p a then 0 else (let r = findIndex p as in if r = -1 then -1 else r + 1))"

section \<open>Shared types\<close>

record Vector2 =
  vec_x :: real
  vec_y :: real




datatype DamageLevel = none | light | medium | heavy

record CarState =
  cs_id :: string
  cs_playerId :: string
  cs_position :: Vector2
  cs_rotation :: real
  cs_velocity :: Vector2
  cs_angularVelocity :: real
  cs_steeringAngle :: real
  cs_speed :: real
  cs_nitroAmount :: real
  cs_damage :: DamageLevel
  cs_isAirborne :: bool
  cs_layer :: int
  cs_lap :: int
  cs_checkpoint :: int
  cs_lapTimes :: "int list"
  cs_lastCheckpointTime :: int
  cs_finished :: bool
  cs_finishTime :: int
  cs_position_rank :: int
  cs_lastInputSequence :: int

definition createInitialCarState :: "string \<Rightarrow> string \<Rightarrow> Vector2 \<Rightarrow> real \<Rightarrow> CarState" where
  "createInitialCarState cid pid pos rot =
     \<lparr>cs_id = cid, cs_playerId = pid, cs_position = pos, cs_rotation = rot,
      cs_velocity = \<lparr>vec_x = 0, vec_y = 0\<rparr>, cs_angularVelocity = 0, cs_steeringAngle = 0,
      cs_speed = 0, cs_nitroAmount = 100, cs_damage = none, cs_isAirborne = False,
      cs_layer = 0, cs_lap = 0, cs_checkpoint = 0, cs_lapTimes = [],
      cs_lastCheckpointTime = 0, cs_finished = False, cs_finishTime = 0,
      cs_position_rank = 0, cs_lastInputSequence = 0\<rparr>"

text \<open>The fields of \<^verbatim>\<open>Partial<CarState>\<close> that \<^verbatim>\<open>deserializeCarState\<close> reads.\<close>

record PartialCarState =
  pc_isAirborne :: "bool option"
  pc_lapTimes :: "int list option"
  pc_lastCheckpointTime :: "int option"
  pc_finishTime :: "int option"

record CarStateSnapshot =
  sn_id :: string
  sn_playerId :: string
  sn_x :: real
  sn_y :: real
  sn_rotation :: real
  sn_vx :: real
  sn_vy :: real
  sn_angularVelocity :: real
  sn_steeringAngle :: real
  sn_speed :: real
  sn_nitro :: real
  sn_damage :: int
  sn_lap :: int
  sn_checkpoint :: int
  sn_positionRank :: int
  sn_finished :: bool
  sn_layer :: int
  sn_lastInputSequence :: int

datatype GameEvent =
    EvCheckpoint string int
  | EvLap string int int
  | EvFinish string int int
  | EvRespawn string

record PlayerInput =
  in_playerId :: string
  in_sequence :: int
  in_timestamp :: int
  in_accelerate :: bool
  in_brake :: bool
  in_steerLeft :: bool
  in_steerRight :: bool
  in_steerValue :: real
  in_nitro :: bool
  in_handbrake :: bool
  in_respawn :: bool

section \<open>Snapshot serialisation (shared/types/network.ts)\<close>

definition damageLevels :: "DamageLevel list" where
  "damageLevels = [none, light, medium, heavy]"

definition indexOf :: "'a list \<Rightarrow> 'a \<Rightarrow> int" where
  "indexOf xs v = findIndex (\<lambda>a. a = v) xs"

definition serializeCarState :: "CarState \<Rightarrow> CarStateSnapshot" where
  "serializeCarState car =
     \<lparr>sn_id = cs_id car,
      sn_playerId = cs_playerId car,
      sn_x = of_int (Math_round (vec_x (cs_position car) * 100)) / 100,
      sn_y = of_int (Math_round (vec_y (cs_position car) * 100)) / 100,
      sn_rotation = of_int (Math_round (cs_rotation car * 1000)) / 1000,
      sn_vx = of_int (Math_round (vec_x (cs_velocity car) * 100)) / 100,
      sn_vy = of_int (Math_round (vec_y (cs_velocity car) * 100)) / 100,
      sn_angularVelocity = of_int (Math_round (cs_angularVelocity car * 1000)) / 1000,
      sn_steeringAngle = of_int (Math_round (cs_steeringAngle car * 1000)) / 1000,
      sn_speed = of_int (Math_round (cs_speed car * 10)) / 10,
      sn_nitro = of_int (Math_round (cs_nitroAmount car)),
      sn_damage = indexOf damageLevels (cs_damage car),
      sn_lap = cs_lap car,
      sn_checkpoint = cs_checkpoint car,
      sn_positionRank = cs_position_rank car,
      sn_finished = cs_finished car,
      sn_layer = cs_layer car,
      sn_lastInputSequence = cs_lastInputSequence car\<rparr>"

definition deserializeCarState :: "CarStateSnapshot \<Rightarrow> PartialCarState option \<Rightarrow> CarState" where
  "deserializeCarState snapshot existing =
     \<lparr>cs_id = sn_id snapshot,
      cs_playerId = sn_playerId snapshot,
      cs_position = \<lparr>vec_x = sn_x snapshot, vec_y = sn_y snapshot\<rparr>,
      cs_rotation = sn_rotation snapshot,
      cs_velocity = \<lparr>vec_x = sn_vx snapshot, vec_y = sn_vy snapshot\<rparr>,
      cs_angularVelocity = sn_angularVelocity snapshot,
      cs_steeringAngle = sn_steeringAngle snapshot,
      cs_speed = sn_speed snapshot,
      cs_nitroAmount = sn_nitro snapshot,
      cs_damage = (case nth_opt damageLevels (sn_damage snapshot) of
                     Some d \<Rightarrow> d | None \<Rightarrow> none),
      cs_isAirborne = (case Option.bind existing pc_isAirborne of
                         Some b \<Rightarrow> b | None \<Rightarrow> False),
      cs_layer = sn_layer snapshot,
      cs_lap = sn_lap snapshot,
      cs_checkpoint = sn_checkpoint snapshot,
      cs_lapTimes = (case Option.bind existing pc_lapTimes of
                       Some l \<Rightarrow> l | None \<Rightarrow> []),
      cs_lastCheckpointTime = (case Option.bind existing pc_lastCheckpointTime of
                                 Some t \<Rightarrow> t | None \<Rightarrow> 0),
      cs_finished = sn_finished snapshot,
      cs_finishTime = (case Option.bind existing pc_finishTime of
                         Some t \<Rightarrow> t | None \<Rightarrow> 0),
      cs_position_rank = sn_positionRank snapshot,
      cs_lastInputSequence = sn_lastInputSequence snapshot\<rparr>"

section \<open>Snapshot serialisation in double precision\<close>

text \<open>
  The same two functions with the arithmetic of JavaScript numbers written out; the exact
  versions above serve where the numbers are positions on a track. A number is an
  IEEE 754 double: a finite value, or one of the two infinities. (No operation of the
  serialiser gives NaN on a car state with finite fields, so NaN is left out.) The product
  and the quotient of two doubles are the exact results rounded to the nearest double,
  ties to the even significand, and a result that rounds to \<^verbatim>\<open>2^1024\<close> or beyond in magnitude
  is an infinity. \<^verbatim>\<open>Math.round\<close> of a finite double is exact: below \<^verbatim>\<open>2^52\<close> in magnitude
  the integer it names is a double, and from there on every double is an integer.
\<close>

datatype Number = Fin real | PlusInfinity | MinusInfinity

definition round_half_even :: "real \<Rightarrow> int" where
  \<comment> \<open>The nearest integer, ties to the even one.\<close>
  "round_half_even t =
     (let f = \<lfloor>t\<rfloor>; d = t - of_int f in
      if d < 1 / 2 then f
      else if 1 / 2 < d then f + 1
      else if even f then f else f + 1)"

definition double_exponent :: "real \<Rightarrow> int" where
  \<comment> \<open>The exponent of the unit in the last place of the doubles around a nonzero v: the
      significand has 53 bits, and the subnormal doubles are the multiples of \<^verbatim>\<open>2^-1074\<close>.\<close>
  "double_exponent v = max \<lfloor>log 2 \<bar>v\<bar>\<rfloor> (- 1022) - 52"

definition to_double :: "real \<Rightarrow> Number" where
  \<comment> \<open>The double that an arithmetic operation returns when its exact result is v.\<close>
  "to_double v =
     (if v = 0 then Fin 0
      else
        let ulp = 2 powr of_int (double_exponent v);
            r = of_int (round_half_even (v / ulp)) * ulp
        in if 2 ^ 1024 \<le> r then PlusInfinity
           else if r \<le> - (2 ^ 1024) then MinusInfinity
           else Fin r)"

definition is_double :: "real \<Rightarrow> bool" where
  "is_double v = (to_double v = Fin v)"

definition times_double :: "real \<Rightarrow> real \<Rightarrow> Number" where
  \<comment> \<open>\<^verbatim>\<open>a * b\<close> for finite a and b.\<close>
  "times_double a b = to_double (a * b)"

definition Math_round_double :: "Number \<Rightarrow> Number" where
  \<comment> \<open>\<^verbatim>\<open>Math.round\<close>: an infinity is returned as it is.\<close>
  "Math_round_double a =
     (case a of Fin p \<Rightarrow> Fin (of_int (Math_round p))
      | PlusInfinity \<Rightarrow> PlusInfinity
      | MinusInfinity \<Rightarrow> MinusInfinity)"

definition divide_double :: "Number \<Rightarrow> real \<Rightarrow> Number" where
  \<comment> \<open>\<^verbatim>\<open>a / k\<close> for a positive finite k.\<close>
  "divide_double a k =
     (case a of Fin n \<Rightarrow> to_double (n / k)
      | PlusInfinity \<Rightarrow> PlusInfinity
      | MinusInfinity \<Rightarrow> MinusInfinity)"

record Vector2_double =
  dvec_x :: Number
  dvec_y :: Number

record CarStateSnapshot_double =
  dsn_id :: string
  dsn_playerId :: string
  dsn_x :: Number
  dsn_y :: Number
  dsn_rotation :: Number
  dsn_vx :: Number
  dsn_vy :: Number
  dsn_angularVelocity :: Number
  dsn_steeringAngle :: Number
  dsn_speed :: Number
  dsn_nitro :: Number
  dsn_damage :: int
  dsn_lap :: int
  dsn_checkpoint :: int
  dsn_positionRank :: int
  dsn_finished :: bool
  dsn_layer :: int
  dsn_lastInputSequence :: int

text \<open>The car state that comes out of a snapshot: its numbers are whatever the snapshot held.\<close>

record CarState_double =
  dcs_id :: string
  dcs_playerId :: string
  dcs_position :: Vector2_double
  dcs_rotation :: Number
  dcs_velocity :: Vector2_double
  dcs_angularVelocity :: Number
  dcs_steeringAngle :: Number
  dcs_speed :: Number
  dcs_nitroAmount :: Number
  dcs_damage :: DamageLevel
  dcs_isAirborne :: bool
  dcs_layer :: int
  dcs_lap :: int
  dcs_checkpoint :: int
  dcs_lapTimes :: "int list"
  dcs_lastCheckpointTime :: int
  dcs_finished :: bool
  dcs_finishTime :: int
  dcs_position_rank :: int
  dcs_lastInputSequence :: int

definition serializeCarState_double :: "CarState \<Rightarrow> CarStateSnapshot_double" where
  \<comment> \<open>\<^verbatim>\<open>serializeCarState\<close> on a car state whose numbers are finite doubles.\<close>
  "serializeCarState_double car =
     \<lparr>dsn_id = cs_id car,
      dsn_playerId = cs_playerId car,
      dsn_x = divide_double (Math_round_double (times_double (vec_x (cs_position car)) 100)) 100,
      dsn_y = divide_double (Math_round_double (times_double (vec_y (cs_position car)) 100)) 100,
      dsn_rotation = divide_double (Math_round_double (times_double (cs_rotation car) 1000)) 1000,
      dsn_vx = divide_double (Math_round_double (times_double (vec_x (cs_velocity car)) 100)) 100,
      dsn_vy = divide_double (Math_round_double (times_double (vec_y (cs_velocity car)) 100)) 100,
      dsn_angularVelocity =
        divide_double (Math_round_double (times_double (cs_angularVelocity car) 1000)) 1000,
      dsn_steeringAngle =
        divide_double (Math_round_double (times_double (cs_steeringAngle car) 1000)) 1000,
      dsn_speed = divide_double (Math_round_double (times_double (cs_speed car) 10)) 10,
      dsn_nitro = Math_round_double (Fin (cs_nitroAmount car)),
      dsn_damage = indexOf damageLevels (cs_damage car),
      dsn_lap = cs_lap car,
      dsn_checkpoint = cs_checkpoint car,
      dsn_positionRank = cs_position_rank car,
      dsn_finished = cs_finished car,
      dsn_layer = cs_layer car,
      dsn_lastInputSequence = cs_lastInputSequence car\<rparr>"

definition deserializeCarState_double ::
  "CarStateSnapshot_double \<Rightarrow> PartialCarState option \<Rightarrow> CarState_double" where
  "deserializeCarState_double snapshot existing =
     \<lparr>dcs_id = dsn_id snapshot,
      dcs_playerId = dsn_playerId snapshot,
      dcs_position = \<lparr>dvec_x = dsn_x snapshot, dvec_y = dsn_y snapshot\<rparr>,
      dcs_rotation = dsn_rotation snapshot,
      dcs_velocity = \<lparr>dvec_x = dsn_vx snapshot, dvec_y = dsn_vy snapshot\<rparr>,
      dcs_angularVelocity = dsn_angularVelocity snapshot,
      dcs_steeringAngle = dsn_steeringAngle snapshot,
      dcs_speed = dsn_speed snapshot,
      dcs_nitroAmount = dsn_nitro snapshot,
      dcs_damage = (case nth_opt damageLevels (dsn_damage snapshot) of
                      Some d \<Rightarrow> d | None \<Rightarrow> none),
      dcs_isAirborne = (case Option.bind existing pc_isAirborne of
                          Some b \<Rightarrow> b | None \<Rightarrow> False),
      dcs_layer = dsn_layer snapshot,
      dcs_lap = dsn_lap snapshot,
      dcs_checkpoint = dsn_checkpoint snapshot,
      dcs_lapTimes = (case Option.bind existing pc_lapTimes of
                        Some l \<Rightarrow> l | None \<Rightarrow> []),
      dcs_lastCheckpointTime = (case Option.bind existing pc_lastCheckpointTime of
                                  Some t \<Rightarrow> t | None \<Rightarrow> 0),
      dcs_finished = dsn_finished snapshot,
      dcs_finishTime = (case Option.bind existing pc_finishTime of
                          Some t \<Rightarrow> t | None \<Rightarrow> 0),
      dcs_position_rank = dsn_positionRank snapshot,
      dcs_lastInputSequence = dsn_lastInputSequence snapshot\<rparr>"

section \<open>Tracks (shared/types/track.ts)\<close>

datatype TrackElementType =
    ty_select | ty_road | ty_road_curve | ty_wall | ty_checkpoint | ty_finish | ty_boost
  | ty_oil | ty_spawn | ty_boost_pad | ty_ramp | ty_ramp_up | ty_ramp_down | ty_bridge
  | ty_oil_slick | ty_barrier | ty_car | ty_tire_stack | ty_pit_stop

record TrackElement =
  el_id :: string
  el_type :: TrackElementType
  el_x :: real
  el_y :: real
  el_width :: real
  el_height :: real
  el_rotation :: real
  el_checkpointIndex :: "int option"
  el_layer :: "int option"

record Track =
  tr_id :: string
  tr_name :: string
  tr_width :: real
  tr_height :: real
  tr_wrapAround :: "bool option"
  tr_elements :: "TrackElement list"

section \<open>Physics constants (shared/constants)\<close>

definition ENGINE_FORCE :: real where "ENGINE_FORCE = 12"
definition REVERSE_FORCE :: real where "REVERSE_FORCE = 3.5"
definition DRAG_COEFFICIENT :: real where "DRAG_COEFFICIENT = 0.015"
definition ROLLING_RESISTANCE :: real where "ROLLING_RESISTANCE = 0.012"
definition MAX_STEERING_ANGLE :: real where "MAX_STEERING_ANGLE = pi / 10"
definition MAX_ANGULAR_VELOCITY :: real where "MAX_ANGULAR_VELOCITY = 2"
definition MAX_SPEED :: real where "MAX_SPEED = 20"
definition MAX_REVERSE_SPEED :: real where "MAX_REVERSE_SPEED = 10"
definition NITRO_BOOST_MULTIPLIER :: real where "NITRO_BOOST_MULTIPLIER = 1.3"
definition NITRO_MAX :: real where "NITRO_MAX = 100"
definition NITRO_DRAIN_RATE :: real where "NITRO_DRAIN_RATE = 50"
definition NITRO_RECHARGE_RATE :: real where "NITRO_RECHARGE_RATE = 10"

section \<open>Insertion-ordered maps\<close>

text \<open>
  A JavaScript \<^verbatim>\<open>Map\<close> iterates in insertion order, so it is a list of key-value
  pairs: \<^verbatim>\<open>get\<close> is \<^const>\<open>map_of\<close>, \<^verbatim>\<open>set\<close> replaces in place or appends,
  \<^verbatim>\<open>delete\<close> filters the key out.
\<close>

fun Map_set :: "('k \<times> 'v) list \<Rightarrow> 'k \<Rightarrow> 'v \<Rightarrow> ('k \<times> 'v) list" where
  "Map_set [] k v = [(k, v)]"
| "Map_set ((k', v') # m) k v = (if k' = k then (k, v) # m else (k', v') # Map_set m k v)"

definition Map_delete :: "('k \<times> 'v) list \<Rightarrow> 'k \<Rightarrow> ('k \<times> 'v) list" where
  "Map_delete m k = filter (\<lambda>kv. fst kv \<noteq> k) m"

section \<open>The rigid body of the physics backend\<close>

text \<open>
  The server keeps each car as a body of the matter-js library. The model holds the
  fields of the body that the server reads and writes, and the library calls the server
  makes on it: \<^verbatim>\<open>Vector.magnitude\<close>, \<^verbatim>\<open>Vector.dot\<close>, \<^verbatim>\<open>Vector.rotate\<close>,
  \<^verbatim>\<open>Body.applyForce\<close> at the body's own position (which adds to the accumulated force and
  adds no torque), and the setters.
\<close>

record Body =
  b_position :: Vector2
  b_angle :: real
  b_velocity :: Vector2
  b_angularVelocity :: real
  b_force :: Vector2

definition Vector_magnitude :: "Vector2 \<Rightarrow> real" where
  "Vector_magnitude v = sqrt (vec_x v * vec_x v + vec_y v * vec_y v)"

definition Vector_dot :: "Vector2 \<Rightarrow> Vector2 \<Rightarrow> real" where
  "Vector_dot a b = vec_x a * vec_x b + vec_y a * vec_y b"

definition Vector_rotate :: "Vector2 \<Rightarrow> real \<Rightarrow> Vector2" where
  "Vector_rotate v a =
     \<lparr>vec_x = vec_x v * cos a - vec_y v * sin a, vec_y = vec_x v * sin a + vec_y v * cos a\<rparr>"

definition Body_applyForce :: "Body \<Rightarrow> Vector2 \<Rightarrow> Body" where
  "Body_applyForce body f =
     body\<lparr>b_force := \<lparr>vec_x = vec_x (b_force body) + vec_x f,
                        vec_y = vec_y (b_force body) + vec_y f\<rparr>\<rparr>"

definition Body_setVelocity :: "Body \<Rightarrow> Vector2 \<Rightarrow> Body" where
  "Body_setVelocity body v = body\<lparr>b_velocity := v\<rparr>"

definition Body_setAngularVelocity :: "Body \<Rightarrow> real \<Rightarrow> Body" where
  "Body_setAngularVelocity body w = body\<lparr>b_angularVelocity := w\<rparr>"

definition Body_setPosition :: "Body \<Rightarrow> Vector2 \<Rightarrow> Body" where
  "Body_setPosition body p = body\<lparr>b_position := p\<rparr>"

definition Body_setAngle :: "Body \<Rightarrow> real \<Rightarrow> Body" where
  "Body_setAngle body a = body\<lparr>b_angle := a\<rparr>"

definition SERVER_BODY_MASS :: real where "SERVER_BODY_MASS = 1.2"
definition MATTER_DT :: real where "MATTER_DT = 1000 / 60"
definition MATTER_DT_SQUARED :: real where "MATTER_DT_SQUARED = MATTER_DT * MATTER_DT"
definition MATTER_FRICTION_AIR :: real where "MATTER_FRICTION_AIR = 1 - 0.01"

definition Body_update :: "Body \<Rightarrow> Body" where
  \<comment> \<open>Modelled from the spec: the integration step of the matter-js backend
      (\<^verbatim>\<open>Matter.Engine.update\<close> for one body that touches nothing), which is library code
      outside the repository. Section 4.1, steps 7 and 8: the velocity becomes
      \<^verbatim>\<open>v (1 - frictionAir) + (F / mass) DT^2\<close> with mass 1.2, frictionAir 0.01 and
      DT = 1000/60, the angular velocity is scaled by \<^verbatim>\<open>1 - frictionAir\<close> and added
      to the rotation, the velocity is added to the position; the accumulated force is
      cleared.\<close>
  "Body_update body =
     (let v = \<lparr>vec_x = vec_x (b_velocity body) * (1 - 0.01)
                       + (vec_x (b_force body) / 1.2) * ((1000 / 60) * (1000 / 60)),
               vec_y = vec_y (b_velocity body) * (1 - 0.01)
                       + (vec_y (b_force body) / 1.2) * ((1000 / 60) * (1000 / 60))\<rparr>;
          w = b_angularVelocity body * (1 - 0.01)
      in \<lparr>b_position = \<lparr>vec_x = vec_x (b_position body) + vec_x v,
                         vec_y = vec_y (b_position body) + vec_y v\<rparr>,
          b_angle = b_angle body + w,
          b_velocity = v,
          b_angularVelocity = w,
          b_force = \<lparr>vec_x = 0, vec_y = 0\<rparr>\<rparr>)"

section \<open>The server physics engine (server/game/physicsEngine.ts)\<close>

record CarPhysicsState =
  ph_body :: Body
  ph_playerId :: string
  ph_input :: "PlayerInput option"
  ph_nitroActive :: bool
  ph_nitroEndTime :: int
  ph_nitroAmount :: real
  ph_lastCheckpoint :: int
  ph_lap :: int
  ph_passedFinishLine :: bool
  ph_layer :: int
  ph_stuckStartTime :: int
  ph_lastPosition :: Vector2
  ph_lastPositionTime :: int
  ph_lastInputSequence :: int

record PhysicsEngine =
  pe_track :: Track
  pe_cars :: "(string \<times> CarPhysicsState) list"
  pe_pendingEvents :: "GameEvent list"
  pe_frameCount :: int

definition addCar :: "PhysicsEngine \<Rightarrow> CarState \<Rightarrow> int \<Rightarrow> PhysicsEngine" where
  \<comment> \<open>The third argument is the clock value \<^verbatim>\<open>Date.now()\<close> read by the call.\<close>
  "addCar pe carState now =
     (let body = \<lparr>b_position = cs_position carState, b_angle = cs_rotation carState,
                   b_velocity = \<lparr>vec_x = 0, vec_y = 0\<rparr>, b_angularVelocity = 0,
                   b_force = \<lparr>vec_x = 0, vec_y = 0\<rparr>\<rparr>;
          physicsState = \<lparr>ph_body = body, ph_playerId = cs_playerId carState,
                           ph_input = None, ph_nitroActive = False, ph_nitroEndTime = 0,
                           ph_nitroAmount = NITRO_MAX, ph_lastCheckpoint = 0, ph_lap = 0,
                           ph_passedFinishLine = False, ph_layer = 0, ph_stuckStartTime = 0,
                           ph_lastPosition = cs_position carState,
                           ph_lastPositionTime = now, ph_lastInputSequence = 0\<rparr>
      in pe\<lparr>pe_cars := Map_set (pe_cars pe) (cs_playerId carState) physicsState\<rparr>)"

definition removeCar :: "PhysicsEngine \<Rightarrow> string \<Rightarrow> PhysicsEngine" where
  "removeCar pe playerId =
     (case map_of (pe_cars pe) playerId of
        None \<Rightarrow> pe
      | Some carState \<Rightarrow> pe\<lparr>pe_cars := Map_delete (pe_cars pe) playerId\<rparr>)"

definition resetCar :: "PhysicsEngine \<Rightarrow> string \<Rightarrow> Vector2 \<Rightarrow> real \<Rightarrow> int \<Rightarrow> PhysicsEngine" where
  "resetCar pe playerId position rotation now =
     (case map_of (pe_cars pe) playerId of
        None \<Rightarrow> pe
      | Some carState \<Rightarrow>
          (let body1 = Body_setPosition (ph_body carState) position;
               body2 = Body_setAngle body1 rotation;
               body3 = Body_setVelocity body2 \<lparr>vec_x = 0, vec_y = 0\<rparr>;
               body4 = Body_setAngularVelocity body3 0;
               carState' = carState\<lparr>ph_body := body4, ph_nitroActive := False,
                             ph_nitroEndTime := 0, ph_stuckStartTime := 0,
                             ph_lastPosition := \<lparr>vec_x = vec_x position, vec_y = vec_y position\<rparr>,
                             ph_lastPositionTime := now\<rparr>
           in pe\<lparr>pe_cars := Map_set (pe_cars pe) playerId carState'\<rparr>))"

definition applyInput :: "PhysicsEngine \<Rightarrow> string \<Rightarrow> PlayerInput \<Rightarrow> PhysicsEngine" where
  "applyInput pe playerId input =
     (case map_of (pe_cars pe) playerId of
        None \<Rightarrow> pe
      | Some carState \<Rightarrow>
          pe\<lparr>pe_cars := Map_set (pe_cars pe) playerId
                (carState\<lparr>ph_input := Some input,
                            ph_lastInputSequence := in_sequence input\<rparr>)\<rparr>)"



definition server_steerInput :: "PlayerInput \<Rightarrow> real" where
  \<comment> \<open>The variable \<^verbatim>\<open>steerInput\<close> of \<^verbatim>\<open>updateCar\<close>: two assignments in sequence.\<close>
  "server_steerInput input =
     (let steerInput0 = 0;
          steerInput1 = (if in_steerLeft input then -1 else steerInput0);
          steerInput2 = (if in_steerRight input then 1 else steerInput1)
      in steerInput2)"

definition speedFactor_of :: "real \<Rightarrow> real" where
  \<comment> \<open>The three-tier speed factor of the steering stage.\<close>
  "speedFactor_of currentSpeed =
     (if currentSpeed < 3 then currentSpeed / 3
      else if currentSpeed < 15 then 1
      else max 0.5 (15 / currentSpeed))"

definition updateCar :: "CarPhysicsState \<Rightarrow> real \<Rightarrow> CarPhysicsState" where
  "updateCar carState deltaTime =
     (case ph_input carState of
        None \<Rightarrow> carState
      | Some input \<Rightarrow>
          (let body0 = ph_body carState;
               currentSpeed = Vector_magnitude (b_velocity body0);
               forwardDir = \<lparr>vec_x = sin (b_angle body0), vec_y = - cos (b_angle body0)\<rparr>;
               forwardSpeed = Vector_dot (b_velocity body0) forwardDir;
               isMovingForward = (forwardSpeed > 0.5);
               isMovingBackward = (forwardSpeed < - 0.5);
               body1 = (if in_accelerate input \<and> currentSpeed < MAX_SPEED
                        then Body_applyForce body0
                               (Vector_rotate \<lparr>vec_x = 0, vec_y = - ENGINE_FORCE * 0.001\<rparr> (b_angle body0))
                        else body0);
               body2 = (if in_brake input
                        then (if isMovingForward \<and> forwardSpeed > 1
                              then Body_setVelocity body1
                                     \<lparr>vec_x = vec_x (b_velocity body1) * 0.95,
                                      vec_y = vec_y (b_velocity body1) * 0.95\<rparr>
                              else if currentSpeed < MAX_REVERSE_SPEED
                              then Body_applyForce body1
                                     (Vector_rotate \<lparr>vec_x = 0, vec_y = REVERSE_FORCE * 0.001\<rparr> (b_angle body1))
                              else body1)
                        else body1);
               steerInput = server_steerInput input;
               body3 = (if steerInput \<noteq> 0
                        then (if currentSpeed > 0.5
                              then (let turnForce = steerInput * MAX_STEERING_ANGLE * 0.18
                                                    * speedFactor_of currentSpeed;
                                        reverseMult = (if isMovingBackward then - 1 else 1)
                                    in Body_setAngularVelocity body2 (turnForce * reverseMult))
                              else body2)
                        else Body_setAngularVelocity body2 (b_angularVelocity body2 * 0.85));
               nitroOn = (in_nitro input \<and> ph_nitroAmount carState > 0);
               carState1 = (if nitroOn
                            then carState\<lparr>ph_nitroActive := True,
                                   ph_nitroAmount := max 0 (ph_nitroAmount carState
                                                            - NITRO_DRAIN_RATE * deltaTime)\<rparr>
                            else carState\<lparr>ph_nitroActive := False,
                                   ph_nitroAmount := min NITRO_MAX (ph_nitroAmount carState
                                                            + NITRO_RECHARGE_RATE * deltaTime)\<rparr>);
               body4 = (if nitroOn
                        then Body_applyForce body3
                               (Vector_rotate \<lparr>vec_x = 0, vec_y = - ENGINE_FORCE * 0.0015\<rparr> (b_angle body3))
                        else body3);
               dragForce = DRAG_COEFFICIENT * currentSpeed;
               rollingResistance = ROLLING_RESISTANCE;
               body5 = Body_setVelocity body4
                         \<lparr>vec_x = vec_x (b_velocity body4) * (1 - dragForce - rollingResistance),
                          vec_y = vec_y (b_velocity body4) * (1 - dragForce - rollingResistance)\<rparr>;
               maxSpeed = (if ph_nitroActive carState1 then MAX_SPEED * NITRO_BOOST_MULTIPLIER
                           else MAX_SPEED);
               body6 = (if currentSpeed > maxSpeed
                        then (let speedRatio = maxSpeed / currentSpeed
                              in Body_setVelocity body5
                                   \<lparr>vec_x = vec_x (b_velocity body5) * speedRatio,
                                    vec_y = vec_y (b_velocity body5) * speedRatio\<rparr>)
                        else body5);
               body7 = (if \<bar>b_angularVelocity body6\<bar> > MAX_ANGULAR_VELOCITY
                        then (let sign = (if b_angularVelocity body6 > 0 then 1 else - 1)
                              in Body_setAngularVelocity body6 (MAX_ANGULAR_VELOCITY * sign))
                        else body6)
           in carState1\<lparr>ph_body := body7\<rparr>))"



definition checkpointKey :: "TrackElement \<Rightarrow> int" where
  \<comment> \<open>\<^verbatim>\<open>el.checkpointIndex ?? 0\<close>, the key of the (stable) sort of the checkpoints.\<close>
  "checkpointKey el = (case el_checkpointIndex el of Some i \<Rightarrow> i | None \<Rightarrow> 0)"

definition sortedCheckpointElements :: "Track \<Rightarrow> TrackElement list" where
  "sortedCheckpointElements track =
     sort_key checkpointKey (filter (\<lambda>el. el_type el = ty_checkpoint) (tr_elements track))"










section \<open>The client predictor (client/src/game/clientPrediction.ts)\<close>

record PredictedState =
  p_x :: real
  p_y :: real
  p_rotation :: real
  p_vx :: real
  p_vy :: real
  p_angularVelocity :: real

text \<open>
  The server state handed to the reconciler: the caller builds it without an angular
  velocity, which the reconciler reads as \<^verbatim>\<open>target.angularVelocity ?? 0\<close>.
\<close>

record ServerState =
  s_x :: real
  s_y :: real
  s_rotation :: real
  s_vx :: real
  s_vy :: real
  s_angularVelocity :: "real option"

record InputRecord =
  ir_sequence :: int
  ir_timestamp :: int
  ir_accelerate :: bool
  ir_brake :: bool
  ir_steerLeft :: bool
  ir_steerRight :: bool
  ir_steerValue :: real
  ir_nitro :: bool
  ir_handbrake :: bool

record TrackBounds =
  tb_width :: real
  tb_height :: real
  tb_wrapAround :: bool

record ReconciliationDebugInfo =
  dbg_lastCorrectionDist :: real
  dbg_lastCorrectionX :: real
  dbg_lastCorrectionY :: real
  dbg_lastVelocityDeltaX :: real
  dbg_lastVelocityDeltaY :: real
  dbg_lastRotationDelta :: real
  dbg_snapped :: bool
  dbg_serverUpdateCount :: int
  dbg_lastServerUpdateTime :: real

text \<open>The module-level variables of the predictor, as one state.\<close>

record Predictor =
  pendingInputs :: "InputRecord list"
  lastConfirmedSequence :: int
  predictedState :: "PredictedState option"
  currentInput :: "InputRecord option"
  trackBounds :: "TrackBounds option"
  physicsAccumulator :: real
  debugInfo :: ReconciliationDebugInfo

definition MAX_PENDING_INPUTS :: nat where "MAX_PENDING_INPUTS = 120"

function trimPending :: "InputRecord list \<Rightarrow> InputRecord list" where
  "trimPending xs = (if length xs > MAX_PENDING_INPUTS then trimPending (tl xs) else xs)"
  by pat_completeness auto
termination
  by (relation "measure length") (auto simp: MAX_PENDING_INPUTS_def)

declare trimPending.simps [simp del]

definition recordInput :: "Predictor \<Rightarrow> InputRecord \<Rightarrow> Predictor" where
  "recordInput P input =
     P\<lparr>pendingInputs := trimPending (pendingInputs P @ [input]),
       currentInput := Some input\<rparr>"

definition client_steerInput :: "InputRecord \<Rightarrow> real" where
  \<comment> \<open>The variable \<^verbatim>\<open>steerInput\<close> of \<^verbatim>\<open>simulateStep\<close>.\<close>
  "client_steerInput input =
     (if ir_steerValue input \<noteq> 0 then ir_steerValue input
      else if ir_steerLeft input then - 1
      else if ir_steerRight input then 1
      else 0)"

definition simulateStep :: "PredictedState \<Rightarrow> InputRecord \<Rightarrow> PredictedState" where
  "simulateStep state input =
     (let forwardX = sin (p_rotation state);
          forwardY = - cos (p_rotation state);
          speed = sqrt (p_vx state * p_vx state + p_vy state * p_vy state);
          forwardSpeed = p_vx state * forwardX + p_vy state * forwardY;
          isMovingForward = (forwardSpeed > 0.5);
          isMovingBackward = (forwardSpeed < - 0.5);
          accel = (ir_accelerate input \<and> speed < MAX_SPEED);
          forceX1 = (if accel then 0 + forwardX * ENGINE_FORCE * 0.001 else 0);
          forceY1 = (if accel then 0 + forwardY * ENGINE_FORCE * 0.001 else 0);
          forceX2 = (if ir_nitro input then forceX1 + forwardX * ENGINE_FORCE * 0.0015 else forceX1);
          forceY2 = (if ir_nitro input then forceY1 + forwardY * ENGINE_FORCE * 0.0015 else forceY1);
          braking = (ir_brake input \<and> isMovingForward \<and> forwardSpeed > 1);
          reversing = (ir_brake input \<and> \<not> (isMovingForward \<and> forwardSpeed > 1)
                       \<and> speed < MAX_REVERSE_SPEED);
          vx1 = (if braking then p_vx state * 0.95 else p_vx state);
          vy1 = (if braking then p_vy state * 0.95 else p_vy state);
          forceX3 = (if reversing then forceX2 - forwardX * REVERSE_FORCE * 0.001 else forceX2);
          forceY3 = (if reversing then forceY2 - forwardY * REVERSE_FORCE * 0.001 else forceY2);
          steerInput = client_steerInput input;
          angularVelocity1 =
            (if steerInput \<noteq> 0
             then (if speed > 0.5
                   then (let turnForce = steerInput * MAX_STEERING_ANGLE * 0.18 * speedFactor_of speed;
                             reverseMult = (if isMovingBackward then - 1 else 1)
                         in turnForce * reverseMult)
                   else p_angularVelocity state)
             else p_angularVelocity state * 0.85);
          angularVelocity2 =
            (if \<bar>angularVelocity1\<bar> > MAX_ANGULAR_VELOCITY
             then sgn angularVelocity1 * MAX_ANGULAR_VELOCITY
             else angularVelocity1);
          dragForce = DRAG_COEFFICIENT * speed;
          rollingResistance = ROLLING_RESISTANCE;
          dragFactor = 1 - dragForce - rollingResistance;
          vx2 = vx1 * dragFactor;
          vy2 = vy1 * dragFactor;
          maxSpeed = (if ir_nitro input then MAX_SPEED * NITRO_BOOST_MULTIPLIER else MAX_SPEED);
          vx3 = (if speed > maxSpeed then vx2 * (maxSpeed / speed) else vx2);
          vy3 = (if speed > maxSpeed then vy2 * (maxSpeed / speed) else vy2);
          vx4 = vx3 * MATTER_FRICTION_AIR + (forceX3 / SERVER_BODY_MASS) * MATTER_DT_SQUARED;
          vy4 = vy3 * MATTER_FRICTION_AIR + (forceY3 / SERVER_BODY_MASS) * MATTER_DT_SQUARED;
          angularVelocity3 = angularVelocity2 * MATTER_FRICTION_AIR;
          rotation1 = p_rotation state + angularVelocity3
      in \<lparr>p_x = p_x state + vx4, p_y = p_y state + vy4, p_rotation = rotation1,
          p_vx = vx4, p_vy = vy4, p_angularVelocity = angularVelocity3\<rparr>)"

fun dropConfirmed :: "InputRecord list \<Rightarrow> int \<Rightarrow> InputRecord list" where
  \<comment> \<open>The loop \<^verbatim>\<open>while (pendingInputs.length > 0 && pendingInputs[0].sequence <= serverSequence)
      pendingInputs.shift()\<close>.\<close>
  "dropConfirmed [] serverSequence = []"
| "dropConfirmed (i # rest) serverSequence =
     (if ir_sequence i \<le> serverSequence then dropConfirmed rest serverSequence else i # rest)"

definition unwrapPosition :: "TrackBounds option \<Rightarrow> Vector2 \<Rightarrow> Vector2 \<Rightarrow> Vector2" where
  "unwrapPosition bounds pos reference =
     (case bounds of
        None \<Rightarrow> pos
      | Some tb \<Rightarrow>
          if \<not> tb_wrapAround tb then pos
          else (let w = tb_width tb;
                    h = tb_height tb;
                    kx = Math_round ((vec_x reference - vec_x pos) / w);
                    ky = Math_round ((vec_y reference - vec_y pos) / h)
                in \<lparr>vec_x = vec_x pos + of_int kx * w, vec_y = vec_y pos + of_int ky * h\<rparr>))"

definition Math_atan2 :: "real \<Rightarrow> real \<Rightarrow> real" where
  "Math_atan2 b a =
     (if a > 0 then arctan (b / a)
      else if a < 0 \<and> b \<ge> 0 then arctan (b / a) + pi
      else if a < 0 \<and> b < 0 then arctan (b / a) - pi
      else if b > 0 then pi / 2
      else if b < 0 then - pi / 2
      else 0)"

definition reconcileWithServer :: "Predictor \<Rightarrow> ServerState \<Rightarrow> int \<Rightarrow> real \<Rightarrow> Predictor" where
  \<comment> \<open>The last argument is the value of \<^verbatim>\<open>performance.now()\<close>. The function returns
      the predicted state it leaves in the module state.\<close>
  "reconcileWithServer P serverState serverSequence perfNow =
     (let P1 = P\<lparr>pendingInputs := dropConfirmed (pendingInputs P) serverSequence,
                  lastConfirmedSequence := serverSequence\<rparr>;
          wraps = (case trackBounds P1 of None \<Rightarrow> False | Some tb \<Rightarrow> tb_wrapAround tb);
          dbg = debugInfo P1
      in case predictedState P1 of
           None \<Rightarrow>
             P1\<lparr>predictedState :=
                   Some \<lparr>p_x = s_x serverState, p_y = s_y serverState,
                         p_rotation = s_rotation serverState,
                         p_vx = s_vx serverState, p_vy = s_vy serverState,
                         p_angularVelocity = (case s_angularVelocity serverState of
                                                Some a \<Rightarrow> a | None \<Rightarrow> 0)\<rparr>,
                 debugInfo := dbg\<lparr>dbg_serverUpdateCount := dbg_serverUpdateCount dbg + 1,
                                   dbg_lastServerUpdateTime := perfNow,
                                   dbg_snapped := True,
                                   dbg_lastCorrectionDist := 0\<rparr>\<rparr>
         | Some pred \<Rightarrow>
             (let unwrapped = (if wraps
                               then unwrapPosition (trackBounds P1)
                                      \<lparr>vec_x = s_x serverState, vec_y = s_y serverState\<rparr>
                                      \<lparr>vec_x = p_x pred, vec_y = p_y pred\<rparr>
                               else \<lparr>vec_x = s_x serverState, vec_y = s_y serverState\<rparr>);
                  targetX = vec_x unwrapped;
                  targetY = vec_y unwrapped;
                  dvx = s_vx serverState - p_vx pred;
                  dvy = s_vy serverState - p_vy pred;
                  rotDiff = Math_atan2 (sin (s_rotation serverState - p_rotation pred))
                                       (cos (s_rotation serverState - p_rotation pred));
                  dx = targetX - p_x pred;
                  dy = targetY - p_y pred;
                  dist = sqrt (dx * dx + dy * dy);
                  dbg1 = dbg\<lparr>dbg_lastVelocityDeltaX := dvx, dbg_lastVelocityDeltaY := dvy,
                             dbg_lastRotationDelta := rotDiff, dbg_lastCorrectionX := dx,
                             dbg_lastCorrectionY := dy, dbg_lastCorrectionDist := dist,
                             dbg_serverUpdateCount := dbg_serverUpdateCount dbg + 1,
                             dbg_lastServerUpdateTime := perfNow\<rparr>;
                  serverAngVel = (case s_angularVelocity serverState of Some a \<Rightarrow> a | None \<Rightarrow> 0);
                  angVelDelta = serverAngVel - p_angularVelocity pred;
                  pred1 = pred\<lparr>p_vx := p_vx pred + dvx * 0.15,
                               p_vy := p_vy pred + dvy * 0.15,
                               p_angularVelocity := p_angularVelocity pred + angVelDelta * 0.15,
                               p_rotation := p_rotation pred + rotDiff * 0.3\<rparr>
              in if dist > 150
                 then P1\<lparr>predictedState :=
                            Some \<lparr>p_x = targetX, p_y = targetY,
                                  p_rotation = s_rotation serverState,
                                  p_vx = s_vx serverState, p_vy = s_vy serverState,
                                  p_angularVelocity = serverAngVel\<rparr>,
                          debugInfo := dbg1\<lparr>dbg_snapped := True\<rparr>\<rparr>
                 else if dist > 0.5
                 then P1\<lparr>predictedState :=
                            Some (pred1\<lparr>p_x := p_x pred1 + dx * 0.1, p_y := p_y pred1 + dy * 0.1\<rparr>),
                          debugInfo := dbg1\<lparr>dbg_snapped := False\<rparr>\<rparr>
                 else P1\<lparr>predictedState := Some pred1,
                          debugInfo := dbg1\<lparr>dbg_snapped := False\<rparr>\<rparr>))"

definition resetPredictionVelocity :: "Predictor \<Rightarrow> Predictor" where
  "resetPredictionVelocity P =
     P\<lparr>predictedState := (case predictedState P of
                             None \<Rightarrow> None
                           | Some pred \<Rightarrow> Some (pred\<lparr>p_vx := 0, p_vy := 0, p_angularVelocity := 0\<rparr>)),
       pendingInputs := []\<rparr>"

section \<open>Rooms (shared types and server/game/gameRoom.ts)\<close>

datatype CarColor =
  c_red | c_blue | c_black | c_white | c_silver | c_green | c_yellow | c_orange

definition COLOR_ORDER :: "CarColor list" where
  "COLOR_ORDER = [c_red, c_blue, c_black, c_white, c_silver, c_green, c_yellow, c_orange]"

definition getAvailableColor :: "CarColor list \<Rightarrow> CarColor option" where
  "getAvailableColor usedColors = List.find (\<lambda>color. color \<notin> set usedColors) COLOR_ORDER"

record Player =
  pl_id :: string
  pl_nickname :: string
  pl_color :: CarColor
  pl_isReady :: bool
  pl_isConnected :: bool
  pl_isSpectator :: bool
  pl_joinedAt :: int
  pl_lastActivity :: int

record GameSettings =
  gs_maxPlayers :: int
  gs_lapCount :: int
  gs_trackId :: string
  gs_isPrivate :: bool
  gs_allowMidRaceJoin :: bool
  gs_enableChat :: bool

datatype RoomState = rs_waiting | rs_countdown | rs_racing | rs_results

datatype GamePhase = gp_waiting | gp_countdown | gp_racing | gp_finished

record GameState =
  g_phase :: GamePhase
  g_countdown :: int
  g_raceStartTime :: int
  g_elapsedTime :: int
  g_finishedPlayers :: "string list"

record LapTime =
  lt_lap :: int
  lt_time :: int
  lt_checkpointTimes :: "int list"

record RaceResult =
  rr_playerId :: string
  rr_nickname :: string
  rr_position :: int
  rr_totalTime :: int
  rr_bestLapTime :: "int option"
  rr_laps :: "LapTime list"
  rr_finished :: bool

record GameStateSnapshot =
  gss_sequence :: int
  gss_timestamp :: int
  gss_gameState :: GameState
  gss_cars :: "CarStateSnapshot list"
  gss_events :: "GameEvent list"

record RoomPlayer =
  rp_id :: string
  rp_nickname :: string
  rp_color :: CarColor
  rp_ready :: bool
  rp_isHost :: bool
  rp_position :: "Vector2 option"
  rp_angle :: real
  rp_velocity :: "Vector2 option"
  rp_lap :: int
  rp_checkpointIndex :: int
  rp_finished :: bool
  rp_finishTime :: "int option"

text \<open>The events a room hands to \<^verbatim>\<open>emit\<close>, with their payloads.\<close>

datatype Emitted =
    player_joined RoomPlayer
  | player_left string string
  | checkpoint_passed string int int
  | lap_completed string int int
  | player_finished string int int
  | game_state GameStateSnapshot

text \<open>The calls a room makes on the leaderboard manager, which it does not wait for.\<close>

datatype LeaderboardCall =
    call_submitLapTime string string int
  | call_submitRaceTime string string int int

record GameRoom =
  gr_id :: string
  gr_code :: string
  gr_hostId :: string
  gr_settings :: GameSettings
  gr_track :: Track
  gr_players :: "(string \<times> Player) list"
  gr_cars :: "(string \<times> CarState) list"
  gr_state :: RoomState
  gr_gameState :: GameState
  gr_results :: "RaceResult list"
  gr_lastActivity :: int
  gr_physics :: PhysicsEngine
  gr_eventListeners :: "nat list"
  gr_pendingEvents :: "GameEvent list"
  gr_stateSequence :: int
  gr_emitted :: "Emitted list"
  gr_leaderboardCalls :: "LeaderboardCall list"

definition emit :: "GameRoom \<Rightarrow> Emitted \<Rightarrow> GameRoom" where
  \<comment> \<open>The listeners are callbacks of the gateway; the log keeps every event that the
      room passes to \<^verbatim>\<open>emit\<close>, in order.\<close>
  "emit room ev = room\<lparr>gr_emitted := gr_emitted room @ [ev]\<rparr>"

definition isFull :: "GameRoom \<Rightarrow> bool" where
  "isFull room = (int (length (gr_players room)) \<ge> gs_maxPlayers (gr_settings room))"

definition isEmpty :: "GameRoom \<Rightarrow> bool" where
  "isEmpty room = (length (gr_players room) = 0)"

definition spawnElements :: "Track \<Rightarrow> TrackElement list" where
  "spawnElements track = filter (\<lambda>el. el_type el = ty_spawn) (tr_elements track)"

definition createCarForPlayer :: "GameRoom \<Rightarrow> Player \<Rightarrow> string \<Rightarrow> int \<Rightarrow> GameRoom" where
  \<comment> \<open>The last two arguments are the identifier from \<^verbatim>\<open>generateUUID()\<close> and the clock.\<close>
  "createCarForPlayer room player uuid now =
     (let spawnIndex = length (gr_cars room);
          spawns = spawnElements (gr_track room)
      in if length spawns = 0 then room
         else (let spawnElement = spawns ! (spawnIndex mod length spawns);
                   position = \<lparr>vec_x = el_x spawnElement + el_width spawnElement / 2,
                               vec_y = el_y spawnElement + el_height spawnElement / 2\<rparr>;
                   rotation = or_zero (el_rotation spawnElement);
                   car = createInitialCarState uuid (pl_id player) position rotation
               in room\<lparr>gr_cars := Map_set (gr_cars room) (pl_id player) car,
                        gr_physics := addCar (gr_physics room) car now\<rparr>))"

definition roomPlayerOf :: "GameRoom \<Rightarrow> Player \<Rightarrow> RoomPlayer" where
  "roomPlayerOf room player =
     (let car = map_of (gr_cars room) (pl_id player)
      in \<lparr>rp_id = pl_id player, rp_nickname = pl_nickname player, rp_color = pl_color player,
          rp_ready = pl_isReady player, rp_isHost = (pl_id player = gr_hostId room),
          rp_position = map_option cs_position car,
          rp_angle = (case car of Some c \<Rightarrow> cs_rotation c | None \<Rightarrow> 0),
          rp_velocity = map_option cs_velocity car,
          rp_lap = (case car of Some c \<Rightarrow> cs_lap c | None \<Rightarrow> 0),
          rp_checkpointIndex = (case car of Some c \<Rightarrow> cs_checkpoint c | None \<Rightarrow> 0),
          rp_finished = (case car of Some c \<Rightarrow> cs_finished c | None \<Rightarrow> False),
          rp_finishTime = map_option cs_finishTime car\<rparr>)"

definition addPlayer ::
  "GameRoom \<Rightarrow> string \<Rightarrow> string \<Rightarrow> CarColor \<Rightarrow> string \<Rightarrow> int \<Rightarrow> GameRoom \<times> Player option" where
  "addPlayer room playerId nickname preferredColor uuid now =
     (case map_of (gr_players room) playerId of
        Some existing \<Rightarrow> (room, Some existing)
      | None \<Rightarrow>
          if isFull room then (room, None)
          else (let usedColors = map (\<lambda>kv. pl_color (snd kv)) (gr_players room);
                    color = (if preferredColor \<in> set usedColors
                             then (case getAvailableColor usedColors of
                                     Some c \<Rightarrow> c | None \<Rightarrow> c_red)
                             else preferredColor);
                    player = \<lparr>pl_id = playerId, pl_nickname = nickname, pl_color = color,
                              pl_isReady = False, pl_isConnected = True, pl_isSpectator = False,
                              pl_joinedAt = now, pl_lastActivity = now\<rparr>;
                    room1 = room\<lparr>gr_players := Map_set (gr_players room) playerId player,
                                 gr_lastActivity := now\<rparr>;
                    room2 = (if gr_state room1 = rs_racing \<and> gs_allowMidRaceJoin (gr_settings room1)
                             then createCarForPlayer room1 player uuid now
                             else room1)
                in (emit room2 (player_joined (roomPlayerOf room2 player)), Some player)))"

definition removePlayer :: "GameRoom \<Rightarrow> string \<Rightarrow> GameRoom" where
  "removePlayer room playerId =
     (case map_of (gr_players room) playerId of
        None \<Rightarrow> room
      | Some player \<Rightarrow>
          (let room1 = room\<lparr>gr_players := Map_delete (gr_players room) playerId,
                            gr_cars := Map_delete (gr_cars room) playerId,
                            gr_physics := removeCar (gr_physics room) playerId\<rparr>;
               room2 = (case gr_players room1 of
                          (k, _) # _ \<Rightarrow>
                            if playerId = gr_hostId room1 then room1\<lparr>gr_hostId := k\<rparr> else room1
                        | [] \<Rightarrow> room1)
           in emit room2 (player_left playerId ''left'')))"

definition physics_reset :: "PhysicsEngine \<Rightarrow> PhysicsEngine" where
  \<comment> \<open>\<^verbatim>\<open>PhysicsEngine.reset\<close>.\<close>
  "physics_reset pe = pe\<lparr>pe_cars := [], pe_pendingEvents := []\<rparr>"

definition shutdown :: "GameRoom \<Rightarrow> GameRoom" where
  \<comment> \<open>The timers the room clears are not part of the model.\<close>
  "shutdown room = room\<lparr>gr_physics := physics_reset (gr_physics room), gr_eventListeners := []\<rparr>"

definition handleRespawn :: "GameRoom \<Rightarrow> string \<Rightarrow> int \<Rightarrow> GameRoom" where
  "handleRespawn room playerId now =
     (case map_of (gr_cars room) playerId of
        None \<Rightarrow> room
      | Some car \<Rightarrow>
          if cs_finished car then room
          else (let checkpointIndex = max 0 (cs_checkpoint car - 1);
                    checkpointElements = sortedCheckpointElements (gr_track room);
                    room1 =
                      (case nth_opt checkpointElements checkpointIndex of
                         None \<Rightarrow> room
                       | Some checkpointElement \<Rightarrow>
                           (let position =
                                  \<lparr>vec_x = el_x checkpointElement + el_width checkpointElement / 2,
                                   vec_y = el_y checkpointElement + el_height checkpointElement / 2\<rparr>;
                                rotation = or_zero (el_rotation checkpointElement);
                                car' = car\<lparr>cs_position := position, cs_rotation := rotation,
                                           cs_velocity := \<lparr>vec_x = 0, vec_y = 0\<rparr>,
                                           cs_angularVelocity := 0\<rparr>
                            in room\<lparr>gr_cars := Map_set (gr_cars room) playerId car',
                                     gr_physics := resetCar (gr_physics room) playerId
                                                     position rotation now\<rparr>))
                in room1\<lparr>gr_pendingEvents := gr_pendingEvents room1 @ [EvRespawn playerId]\<rparr>))"

definition handleInput :: "GameRoom \<Rightarrow> string \<Rightarrow> PlayerInput \<Rightarrow> int \<Rightarrow> GameRoom" where
  "handleInput room playerId input now =
     (if gr_state room \<noteq> rs_countdown \<and> gr_state room \<noteq> rs_racing then room
      else case map_of (gr_cars room) playerId of
             None \<Rightarrow> room
           | Some car \<Rightarrow>
               if in_respawn input then handleRespawn room playerId now
               else room\<lparr>gr_physics := applyInput (gr_physics room) playerId input,
                        gr_lastActivity := now\<rparr>)"

definition handleCheckpoint :: "GameRoom \<Rightarrow> string \<Rightarrow> int \<Rightarrow> int \<Rightarrow> GameRoom" where
  "handleCheckpoint room playerId checkpoint now =
     (case map_of (gr_cars room) playerId of
        None \<Rightarrow> room
      | Some car \<Rightarrow>
          emit (room\<lparr>gr_cars := Map_set (gr_cars room) playerId
                          (car\<lparr>cs_checkpoint := checkpoint, cs_lastCheckpointTime := now\<rparr>)\<rparr>)
               (checkpoint_passed playerId checkpoint (g_elapsedTime (gr_gameState room))))"

definition Math_min_list :: "int list \<Rightarrow> int option" where
  \<comment> \<open>\<^verbatim>\<open>Math.min(...xs)\<close>; \<^const>\<open>None\<close> stands for the \<^verbatim>\<open>Infinity\<close> of no arguments.\<close>
  "Math_min_list xs = (case xs of [] \<Rightarrow> None | a # as \<Rightarrow> Some (fold min as a))"

definition lapsOf :: "int list \<Rightarrow> LapTime list" where
  "lapsOf lapTimes =
     map (\<lambda>(time, index). \<lparr>lt_lap = int index + 1, lt_time = time, lt_checkpointTimes = []\<rparr>)
         (zip lapTimes [0 ..< length lapTimes])"

definition handlePlayerFinish :: "GameRoom \<Rightarrow> string \<Rightarrow> int \<Rightarrow> int \<Rightarrow> GameRoom" where
  "handlePlayerFinish room playerId position totalTime =
     (case (map_of (gr_cars room) playerId, map_of (gr_players room) playerId) of
        (Some car, Some player) \<Rightarrow>
          (let car' = car\<lparr>cs_finished := True, cs_finishTime := totalTime,
                          cs_position_rank := position\<rparr>;
               gstate = gr_gameState room;
               result = \<lparr>rr_playerId = playerId, rr_nickname = pl_nickname player,
                         rr_position = position, rr_totalTime = totalTime,
                         rr_bestLapTime = Math_min_list (cs_lapTimes car'),
                         rr_laps = lapsOf (cs_lapTimes car'), rr_finished = True\<rparr>;
               room1 = room\<lparr>gr_cars := Map_set (gr_cars room) playerId car',
                            gr_gameState := gstate\<lparr>g_finishedPlayers :=
                                                      g_finishedPlayers gstate @ [playerId]\<rparr>,
                            gr_results := gr_results room @ [result]\<rparr>;
               room2 = emit room1 (player_finished playerId position totalTime)
           in room2\<lparr>gr_leaderboardCalls := gr_leaderboardCalls room2 @
                       [call_submitRaceTime (tr_id (gr_track room2)) (pl_nickname player)
                          totalTime (gs_lapCount (gr_settings room2))]\<rparr>)
      | _ \<Rightarrow> room)"

definition handleLapComplete :: "GameRoom \<Rightarrow> string \<Rightarrow> int \<Rightarrow> int \<Rightarrow> GameRoom" where
  "handleLapComplete room playerId lap lapTime_unused =
     (case map_of (gr_cars room) playerId of
        None \<Rightarrow> room
      | Some car \<Rightarrow>
          (let now = g_elapsedTime (gr_gameState room);
               previousLapTotalTime = fold (\<lambda>t sum. sum + t) (cs_lapTimes car) 0;
               actualLapTime = now - previousLapTotalTime;
               car' = car\<lparr>cs_lap := lap, cs_checkpoint := 0,
                          cs_lapTimes := cs_lapTimes car @ [actualLapTime]\<rparr>;
               room1 = room\<lparr>gr_cars := Map_set (gr_cars room) playerId car'\<rparr>;
               room2 = emit room1 (lap_completed playerId lap actualLapTime);
               room3 = (case map_of (gr_players room2) playerId of
                          None \<Rightarrow> room2
                        | Some player \<Rightarrow>
                            room2\<lparr>gr_leaderboardCalls := gr_leaderboardCalls room2 @
                                     [call_submitLapTime (tr_id (gr_track room2))
                                        (pl_nickname player) actualLapTime]\<rparr>)
           in if lap \<ge> gs_lapCount (gr_settings room3)
              then handlePlayerFinish room3 playerId
                     (int (length (g_finishedPlayers (gr_gameState room3))) + 1)
                     (g_elapsedTime (gr_gameState room3))
              else room3))"

definition handlePhysicsEvent :: "GameRoom \<Rightarrow> GameEvent \<Rightarrow> int \<Rightarrow> GameRoom" where
  "handlePhysicsEvent room event now =
     (let room1 = room\<lparr>gr_pendingEvents := gr_pendingEvents room @ [event]\<rparr>
      in case event of
           EvCheckpoint playerId checkpoint \<Rightarrow> handleCheckpoint room1 playerId checkpoint now
         | EvLap playerId lap time \<Rightarrow> handleLapComplete room1 playerId lap time
         | EvFinish playerId position time \<Rightarrow> handlePlayerFinish room1 playerId position time
         | EvRespawn playerId \<Rightarrow> room1)"

definition createStateSnapshot :: "GameRoom \<Rightarrow> int \<Rightarrow> GameRoom \<times> GameStateSnapshot" where
  "createStateSnapshot room now =
     (let room1 = room\<lparr>gr_stateSequence := gr_stateSequence room + 1\<rparr>
      in (room1,
          \<lparr>gss_sequence = gr_stateSequence room1,
           gss_timestamp = now,
           gss_gameState = gr_gameState room1,
           gss_cars = map (\<lambda>kv. serializeCarState (snd kv)) (gr_cars room1),
           gss_events = gr_pendingEvents room1\<rparr>))"

definition broadcastState :: "GameRoom \<Rightarrow> int \<Rightarrow> GameRoom" where
  "broadcastState room now =
     (let (room1, snapshot) = createStateSnapshot room now
      in (emit room1 (game_state snapshot))\<lparr>gr_pendingEvents := []\<rparr>)"

section \<open>The room manager (server/game/roomManager.ts)\<close>

definition toUpperCase :: "string \<Rightarrow> string" where
  \<comment> \<open>On the ASCII letters, which are all a room code or identifier holds.\<close>
  "toUpperCase s =
     map (\<lambda>c. let n = (of_char c :: nat) in if 97 \<le> n \<and> n \<le> 122 then char_of (n - 32) else c) s"

definition toLowerCase :: "string \<Rightarrow> string" where
  "toLowerCase s =
     map (\<lambda>c. let n = (of_char c :: nat) in if 65 \<le> n \<and> n \<le> 90 then char_of (n + 32) else c) s"

text \<open>
  The two indexes of the manager hold references to the same room objects, so the rooms
  live in a store addressed by reference and the indexes map to references.
\<close>

record RoomManager =
  rm_store :: "nat \<Rightarrow> GameRoom"
  rm_rooms :: "(string \<times> nat) list"
  rm_roomsByCode :: "(string \<times> nat) list"
  rm_playerRooms :: "(string \<times> string) list"

record JoinResult =
  jr_success :: bool
  jr_room :: "nat option"
  jr_player :: "Player option"
  jr_error :: "string option"

definition getPlayerRoom :: "RoomManager \<Rightarrow> string \<Rightarrow> nat option" where
  "getPlayerRoom rm playerId =
     (case map_of (rm_playerRooms rm) playerId of
        None \<Rightarrow> None
      | Some roomId \<Rightarrow> if roomId = [] then None else map_of (rm_rooms rm) roomId)"

definition removeRoom :: "RoomManager \<Rightarrow> string \<Rightarrow> RoomManager" where
  "removeRoom rm roomId =
     (case map_of (rm_rooms rm) roomId of
        None \<Rightarrow> rm
      | Some r \<Rightarrow>
          rm\<lparr>rm_store := (rm_store rm)(r := shutdown (rm_store rm r)),
              rm_rooms := Map_delete (rm_rooms rm) roomId,
              rm_roomsByCode := Map_delete (rm_roomsByCode rm) (gr_code (rm_store rm r))\<rparr>)"

definition leaveRoom :: "RoomManager \<Rightarrow> string \<Rightarrow> RoomManager" where
  "leaveRoom rm playerId =
     (case getPlayerRoom rm playerId of
        None \<Rightarrow> rm
      | Some r \<Rightarrow>
          (let rm1 = rm\<lparr>rm_store := (rm_store rm)(r := removePlayer (rm_store rm r) playerId),
                        rm_playerRooms := Map_delete (rm_playerRooms rm) playerId\<rparr>
           in if isEmpty (rm_store rm1 r) then removeRoom rm1 (gr_id (rm_store rm1 r)) else rm1))"

definition findRoom :: "RoomManager \<Rightarrow> string \<Rightarrow> nat option" where
  \<comment> \<open>The first lines of \<^verbatim>\<open>joinRoom\<close>: look the room up by identifier, then by code.\<close>
  "findRoom rm roomIdOrCode =
     (case map_of (rm_rooms rm) roomIdOrCode of
        Some r \<Rightarrow> Some r
      | None \<Rightarrow> map_of (rm_roomsByCode rm) (toUpperCase roomIdOrCode))"

definition joinRoom ::
  "RoomManager \<Rightarrow> string \<Rightarrow> string \<Rightarrow> string \<Rightarrow> CarColor \<Rightarrow> string \<Rightarrow> int
     \<Rightarrow> RoomManager \<times> JoinResult" where
  "joinRoom rm roomIdOrCode playerId nickname preferredColor uuid now =
     (case findRoom rm roomIdOrCode of
           None \<Rightarrow>
             (rm, \<lparr>jr_success = False, jr_room = None, jr_player = None,
                   jr_error = Some ''Room not found''\<rparr>)
         | Some r \<Rightarrow>
             if isFull (rm_store rm r)
             then (rm, \<lparr>jr_success = False, jr_room = None, jr_player = None,
                        jr_error = Some ''Room is full''\<rparr>)
             else if gr_state (rm_store rm r) = rs_racing
                     \<and> \<not> gs_allowMidRaceJoin (gr_settings (rm_store rm r))
             then (rm, \<lparr>jr_success = False, jr_room = None, jr_player = None,
                        jr_error = Some ''Race already in progress''\<rparr>)
             else (let rm1 = (case getPlayerRoom rm playerId of
                                None \<Rightarrow> rm
                              | Some currentRoom \<Rightarrow> leaveRoom rm playerId);
                       (room', player) = addPlayer (rm_store rm1 r) playerId nickname
                                           preferredColor uuid now;
                       rm2 = rm1\<lparr>rm_store := (rm_store rm1)(r := room')\<rparr>
                   in case player of
                        None \<Rightarrow>
                          (rm2, \<lparr>jr_success = False, jr_room = None, jr_player = None,
                                 jr_error = Some ''Failed to join room''\<rparr>)
                      | Some p \<Rightarrow>
                          (rm2\<lparr>rm_playerRooms := Map_set (rm_playerRooms rm2) playerId (gr_id room')\<rparr>,
                           \<lparr>jr_success = True, jr_room = Some r, jr_player = Some p,
                            jr_error = None\<rparr>)))"

section \<open>The leaderboards (server/leaderboards/leaderboardManager.ts)\<close>

record LeaderboardEntry =
  le_id :: string
  le_nickname :: string
  le_time :: int
  le_date :: int
  le_ghostId :: "string option"

record TrackLeaderboard =
  lb_trackId :: string
  lb_bestLapTimes :: "LeaderboardEntry list"
  lb_bestRaceTimes :: "LeaderboardEntry list"

definition MAX_LEADERBOARD_ENTRIES :: nat where "MAX_LEADERBOARD_ENTRIES = 100"

text \<open>
  The manager's cache of leaderboards, and the \<^verbatim>\<open>leaderboards\<close> collection of the
  storage service it reads and writes.
\<close>

record LeaderboardManager =
  lm_leaderboards :: "(string \<times> TrackLeaderboard) list"
  lm_storage :: "string \<Rightarrow> TrackLeaderboard option"

definition getLeaderboard :: "LeaderboardManager \<Rightarrow> string \<Rightarrow> LeaderboardManager \<times> TrackLeaderboard" where
  "getLeaderboard lm trackId =
     (case map_of (lm_leaderboards lm) trackId of
        Some leaderboard \<Rightarrow> (lm, leaderboard)
      | None \<Rightarrow>
          (let leaderboard = (case lm_storage lm trackId of
                                Some stored \<Rightarrow> stored
                              | None \<Rightarrow> \<lparr>lb_trackId = trackId, lb_bestLapTimes = [],
                                          lb_bestRaceTimes = []\<rparr>)
           in (lm\<lparr>lm_leaderboards := Map_set (lm_leaderboards lm) trackId leaderboard\<rparr>,
               leaderboard)))"

definition splice_remove :: "'a list \<Rightarrow> int \<Rightarrow> 'a list" where
  \<comment> \<open>\<^verbatim>\<open>xs.splice(i, 1)\<close> for an index inside the array.\<close>
  "splice_remove xs i = take (nat i) xs @ drop (nat i + 1) xs"

definition splice_insert :: "'a list \<Rightarrow> int \<Rightarrow> 'a \<Rightarrow> 'a list" where
  \<comment> \<open>\<^verbatim>\<open>xs.splice(i, 0, e)\<close> for a nonnegative index.\<close>
  "splice_insert xs i e = take (nat i) xs @ [e] @ drop (nat i) xs"

definition submitLapTime ::
  "LeaderboardManager \<Rightarrow> string \<Rightarrow> string \<Rightarrow> int \<Rightarrow> string option \<Rightarrow> string \<Rightarrow> int
     \<Rightarrow> LeaderboardManager \<times> int \<times> bool" where
  \<comment> \<open>The last two arguments are the identifier from \<^verbatim>\<open>generateUUID()\<close> and the clock;
      the result carries the rank and the new-record flag.\<close>
  "submitLapTime lm trackId nickname time ghostId uuid now =
     (let (lm1, leaderboard) = getLeaderboard lm trackId;
          entry = \<lparr>le_id = uuid, le_nickname = nickname, le_time = time, le_date = now,
                    le_ghostId = ghostId\<rparr>;
          times0 = lb_bestLapTimes leaderboard;
          found = findIndex (\<lambda>e. le_time e > time) times0;
          rank0 = (if found = - 1 then int (length times0) else found);
          existingIndex = findIndex (\<lambda>e. toLowerCase (le_nickname e) = toLowerCase nickname) times0
      in if existingIndex = - 1 \<or> le_time (times0 ! nat existingIndex) > time
         then (let times1 = (if existingIndex \<noteq> - 1 then splice_remove times0 existingIndex
                             else times0);
                   rank1 = (if existingIndex \<noteq> - 1 \<and> existingIndex < rank0 then rank0 - 1
                            else rank0);
                   times2 = splice_insert times1 rank1 entry;
                   times3 = (if length times2 > MAX_LEADERBOARD_ENTRIES
                             then take MAX_LEADERBOARD_ENTRIES times2 else times2);
                   leaderboard' = leaderboard\<lparr>lb_bestLapTimes := times3\<rparr>
               in (lm1\<lparr>lm_leaderboards := Map_set (lm_leaderboards lm1) trackId leaderboard',
                       lm_storage := (lm_storage lm1)(trackId \<mapsto> leaderboard')\<rparr>,
                   rank1 + 1, rank1 = 0))
         else (lm1, rank0 + 1, False))"

section \<open>The client's handling of a snapshot (client/src/store)\<close>

text \<open>
  The part of the client's stores that decides what happens to the predictor when a
  \<^verbatim>\<open>game_state\<close> message arrives: the player identifier of the network store, the local
  player identifier and the keys of the car table of the game store, and the predictor
  module itself. The display state of the cars is left out.
\<close>

record ClientStore =
  cl_playerId :: "string option"
  cl_localPlayerId :: "string option"
  cl_carIds :: "string list"
  cl_predictor :: Predictor

definition MAX_VALID_POSITION :: real where "MAX_VALID_POSITION = 5000"

fun updateCars ::
  "string option \<Rightarrow> string list \<Rightarrow> CarStateSnapshot list \<Rightarrow> real
     \<Rightarrow> string list \<times> Predictor \<Rightarrow> string list \<times> Predictor" where
  \<comment> \<open>The loop of \<^verbatim>\<open>updateFromServer\<close> over the cars of the snapshot; the accumulator is
      the key list of the new car table and the predictor. The existing car only fills
      fields of the deserialised state that the loop does not read, and the snapshot
      always carries a last input sequence.\<close>
  "updateCars localPlayerId currentCars [] perfNow acc = acc"
| "updateCars localPlayerId currentCars (carSnapshot # rest) perfNow (newCars, P) =
     (let existingCar = (sn_playerId carSnapshot \<in> set currentCars);
          carState = deserializeCarState carSnapshot None;
          isLocalPlayer = (Some (sn_playerId carSnapshot) = localPlayerId);
          posIsInvalid = (\<bar>vec_x (cs_position carState)\<bar> > MAX_VALID_POSITION
                          \<or> \<bar>vec_y (cs_position carState)\<bar> > MAX_VALID_POSITION)
      in if posIsInvalid
         then updateCars localPlayerId currentCars rest perfNow
                (if existingCar then newCars @ [sn_playerId carSnapshot] else newCars, P)
         else if isLocalPlayer \<and> existingCar
         then updateCars localPlayerId currentCars rest perfNow
                (newCars @ [sn_playerId carSnapshot],
                 reconcileWithServer P
                   \<lparr>s_x = vec_x (cs_position carState), s_y = vec_y (cs_position carState),
                    s_rotation = cs_rotation carState,
                    s_vx = vec_x (cs_velocity carState), s_vy = vec_y (cs_velocity carState),
                    s_angularVelocity = None\<rparr>
                   (sn_lastInputSequence carSnapshot) perfNow)
         else updateCars localPlayerId currentCars rest perfNow
                (newCars @ [sn_playerId carSnapshot], P))"

definition updateFromServer :: "ClientStore \<Rightarrow> GameStateSnapshot \<Rightarrow> real \<Rightarrow> ClientStore" where
  "updateFromServer store snapshot perfNow =
     (let (newCars, P) = updateCars (cl_localPlayerId store) (cl_carIds store)
                           (gss_cars snapshot) perfNow ([], cl_predictor store)
      in store\<lparr>cl_carIds := newCars, cl_predictor := P\<rparr>)"

definition isLocalRespawn :: "string option \<Rightarrow> GameEvent \<Rightarrow> bool" where
  "isLocalRespawn localId event =
     (case event of EvRespawn playerId \<Rightarrow> Some playerId = localId | _ \<Rightarrow> False)"

definition handleGameState :: "ClientStore \<Rightarrow> GameStateSnapshot \<Rightarrow> real \<Rightarrow> ClientStore" where
  \<comment> \<open>The \<^verbatim>\<open>game_state\<close> case of the network store's message handler.\<close>
  "handleGameState store snapshot perfNow =
     (let store1 = updateFromServer store snapshot perfNow
      in if list_ex (isLocalRespawn (cl_playerId store1)) (gss_events snapshot)
         then store1\<lparr>cl_predictor := resetPredictionVelocity (cl_predictor store1)\<rparr>
         else store1)"

section \<open>The two integrators side by side\<close>

text \<open>
  One server tick for a car that touches nothing on a track that does not wrap is
  \<^const>\<open>updateCar\<close> followed by the integration step of the backend. The predictor
  works on the position, rotation and velocities of the body and on the flags of the
  input; the two projections below read them off the server's values.
\<close>

definition serverStep :: "CarPhysicsState \<Rightarrow> CarPhysicsState" where
  "serverStep carState =
     (let carState' = updateCar carState (1 / 60)
      in carState'\<lparr>ph_body := Body_update (ph_body carState')\<rparr>)"

definition predictedOf :: "CarPhysicsState \<Rightarrow> PredictedState" where
  "predictedOf carState =
     (let body = ph_body carState
      in \<lparr>p_x = vec_x (b_position body), p_y = vec_y (b_position body),
          p_rotation = b_angle body,
          p_vx = vec_x (b_velocity body), p_vy = vec_y (b_velocity body),
          p_angularVelocity = b_angularVelocity body\<rparr>)"

definition recordOf :: "PlayerInput \<Rightarrow> InputRecord" where
  "recordOf input =
     \<lparr>ir_sequence = in_sequence input, ir_timestamp = in_timestamp input,
      ir_accelerate = in_accelerate input, ir_brake = in_brake input,
      ir_steerLeft = in_steerLeft input, ir_steerRight = in_steerRight input,
      ir_steerValue = in_steerValue input, ir_nitro = in_nitro input,
      ir_handbrake = in_handbrake input\<rparr>"

section \<open>Example states\<close>

definition ex_track :: Track where
  "ex_track =
     \<lparr>tr_id = ''t1'', tr_name = ''Oval'', tr_width = 800, tr_height = 600,
      tr_wrapAround = Some True,
      tr_elements =
        [\<lparr>el_id = ''s1'', el_type = ty_spawn, el_x = 120, el_y = 440, el_width = 120,
          el_height = 60, el_rotation = 0, el_checkpointIndex = None, el_layer = Some 0\<rparr>,
         \<lparr>el_id = ''f1'', el_type = ty_finish, el_x = 120, el_y = 420, el_width = 120,
          el_height = 20, el_rotation = 0, el_checkpointIndex = None, el_layer = Some 0\<rparr>,
         \<lparr>el_id = ''k1'', el_type = ty_checkpoint, el_x = 600, el_y = 400, el_width = 100,
          el_height = 100, el_rotation = 1, el_checkpointIndex = Some 1, el_layer = None\<rparr>,
         \<lparr>el_id = ''k0'', el_type = ty_checkpoint, el_x = 500, el_y = 100, el_width = 100,
          el_height = 100, el_rotation = 0, el_checkpointIndex = Some 0, el_layer = None\<rparr>]\<rparr>"

definition ex_car :: CarState where
  \<comment> \<open>A car on its second lap, with one lap of 30 s recorded and no checkpoint passed
      in the current lap.\<close>
  "ex_car = (createInitialCarState ''car-1'' ''p1'' \<lparr>vec_x = 300, vec_y = 200\<rparr> 0)
              \<lparr>cs_velocity := \<lparr>vec_x = 0, vec_y = - 4\<rparr>, cs_angularVelocity := 1 / 10,
               cs_speed := 4, cs_lap := 1,
               cs_lapTimes := [30000], cs_lastInputSequence := 4\<rparr>"

definition ex_phys :: CarPhysicsState where
  "ex_phys =
     \<lparr>ph_body = \<lparr>b_position = \<lparr>vec_x = 300, vec_y = 200\<rparr>, b_angle = 0,
                  b_velocity = \<lparr>vec_x = 0, vec_y = - 4\<rparr>, b_angularVelocity = 1 / 10,
                  b_force = \<lparr>vec_x = 0, vec_y = 0\<rparr>\<rparr>,
      ph_playerId = ''p1'', ph_input = None, ph_nitroActive = False, ph_nitroEndTime = 0,
      ph_nitroAmount = 100, ph_lastCheckpoint = 0, ph_lap = 1, ph_passedFinishLine = False,
      ph_layer = 0, ph_stuckStartTime = 0, ph_lastPosition = \<lparr>vec_x = 300, vec_y = 200\<rparr>,
      ph_lastPositionTime = 0, ph_lastInputSequence = 4\<rparr>"

definition ex_engine :: PhysicsEngine where
  "ex_engine = \<lparr>pe_track = ex_track, pe_cars = [(''p1'', ex_phys)], pe_pendingEvents = [],
                pe_frameCount = 0\<rparr>"

definition ex_player :: Player where
  "ex_player = \<lparr>pl_id = ''p1'', pl_nickname = ''Ann'', pl_color = c_red, pl_isReady = True,
                pl_isConnected = True, pl_isSpectator = False, pl_joinedAt = 0,
                pl_lastActivity = 0\<rparr>"

definition ex_room :: GameRoom where
  \<comment> \<open>A private room of one player, 65 s into a race of three laps.\<close>
  "ex_room =
     \<lparr>gr_id = ''room-1'', gr_code = ''ABC234'', gr_hostId = ''p1'',
      gr_settings = \<lparr>gs_maxPlayers = 8, gs_lapCount = 3, gs_trackId = ''t1'',
                      gs_isPrivate = True, gs_allowMidRaceJoin = False, gs_enableChat = True\<rparr>,
      gr_track = ex_track,
      gr_players = [(''p1'', ex_player)],
      gr_cars = [(''p1'', ex_car)],
      gr_state = rs_racing,
      gr_gameState = \<lparr>g_phase = gp_racing, g_countdown = 0, g_raceStartTime = 1000,
                       g_elapsedTime = 65000, g_finishedPlayers = []\<rparr>,
      gr_results = [],
      gr_lastActivity = 0,
      gr_physics = ex_engine,
      gr_eventListeners = [0],
      gr_pendingEvents = [],
      gr_stateSequence = 7,
      gr_emitted = [],
      gr_leaderboardCalls = []\<rparr>"

definition ex_lobby :: GameRoom where
  \<comment> \<open>The same private room before the race.\<close>
  "ex_lobby = ex_room\<lparr>gr_state := rs_waiting, gr_cars := [],
                       gr_physics := physics_reset ex_engine,
                       gr_gameState := \<lparr>g_phase = gp_waiting, g_countdown = 0,
                                         g_raceStartTime = 0, g_elapsedTime = 0,
                                         g_finishedPlayers = []\<rparr>\<rparr>"

definition ex_manager :: RoomManager where
  "ex_manager = \<lparr>rm_store = (\<lambda>r. ex_lobby), rm_rooms = [(''room-1'', 0)],
                 rm_roomsByCode = [(''ABC234'', 0)], rm_playerRooms = [(''p1'', ''room-1'')]\<rparr>"

definition ex_tilt :: PlayerInput where
  \<comment> \<open>What the tilt control sends at 15 degrees to the right: half steering, and the
      right flag because the tilt is beyond the threshold.\<close>
  "ex_tilt = \<lparr>in_playerId = ''p1'', in_sequence = 5, in_timestamp = 0, in_accelerate = False,
              in_brake = False, in_steerLeft = False, in_steerRight = True,
              in_steerValue = 1 / 2, in_nitro = False, in_handbrake = False,
              in_respawn = False\<rparr>"

definition ex_tilt_small :: PlayerInput where
  \<comment> \<open>What the tilt control sends at 3 degrees to the right: a tenth of full steering,
      below the threshold of the flags.\<close>
  "ex_tilt_small = ex_tilt\<lparr>in_steerRight := False, in_steerValue := 1 / 10\<rparr>"

definition ex_respawn :: PlayerInput where
  "ex_respawn = ex_tilt\<lparr>in_steerRight := False, in_steerValue := 0, in_accelerate := True,
                        in_respawn := True\<rparr>"



definition ex_rec :: "int \<Rightarrow> InputRecord" where
  "ex_rec n = \<lparr>ir_sequence = n, ir_timestamp = 0, ir_accelerate = True, ir_brake = False,
               ir_steerLeft = False, ir_steerRight = False, ir_steerValue = 0,
               ir_nitro = False, ir_handbrake = False\<rparr>"

definition ex_predictor :: Predictor where
  "ex_predictor =
     \<lparr>pendingInputs = [ex_rec 3, ex_rec 5],
      lastConfirmedSequence = 2,
      predictedState = Some \<lparr>p_x = 300, p_y = 196, p_rotation = 0, p_vx = 0, p_vy = - 4,
                              p_angularVelocity = 0\<rparr>,
      currentInput = Some (ex_rec 5),
      trackBounds = Some \<lparr>tb_width = 800, tb_height = 600, tb_wrapAround = True\<rparr>,
      physicsAccumulator = 0,
      debugInfo = \<lparr>dbg_lastCorrectionDist = 0, dbg_lastCorrectionX = 0, dbg_lastCorrectionY = 0,
                    dbg_lastVelocityDeltaX = 0, dbg_lastVelocityDeltaY = 0,
                    dbg_lastRotationDelta = 0, dbg_snapped = False,
                    dbg_serverUpdateCount = 0, dbg_lastServerUpdateTime = 0\<rparr>\<rparr>"

definition ex_client :: ClientStore where
  "ex_client = \<lparr>cl_playerId = Some ''p1'', cl_localPlayerId = Some ''p1'',
                cl_carIds = [''p1''], cl_predictor = ex_predictor\<rparr>"

definition ex_entry :: "string \<Rightarrow> int \<Rightarrow> LeaderboardEntry" where
  "ex_entry name t = \<lparr>le_id = name, le_nickname = name, le_time = t, le_date = 0,
                      le_ghostId = None\<rparr>"

definition ex_leaderboards :: LeaderboardManager where
  "ex_leaderboards =
     \<lparr>lm_leaderboards =
        [(''t1'', \<lparr>lb_trackId = ''t1'',
                   lb_bestLapTimes = [ex_entry ''Ann'' 30000, ex_entry ''Bob'' 40000,
                                      ex_entry ''Cyd'' 50000],
                   lb_bestRaceTimes = []\<rparr>)],
      lm_storage = (\<lambda>k. None)\<rparr>"

definition ex_far_car :: CarState where
  \<comment> \<open>A car at rest far from the origin; each of its numbers is a double.\<close>
  "ex_far_car =
     createInitialCarState ''car-9'' ''p9'' \<lparr>vec_x = 1000000000000000.25, vec_y = 200\<rparr> 0"

definition ex_huge_car :: CarState where
  "ex_huge_car = createInitialCarState ''car-9'' ''p9'' \<lparr>vec_x = 2 ^ 1020, vec_y = 200\<rparr> 0"

section \<open>Properties\<close>

subsection \<open>Shared lemmas\<close>

lemma map_of_Map_set_same: "map_of (Map_set m k v) k = Some v"
  by (induction m) auto

lemma map_of_Map_set_other: "k' \<noteq> k \<Longrightarrow> map_of (Map_set m k v) k' = map_of m k'"
  by (induction m) auto

lemma Map_set_map_same:
  "map_of m k = Some v0 \<Longrightarrow> f (k, v) = f (k, v0) \<Longrightarrow> map f (Map_set m k v) = map f m"
  by (induction m) (auto split: if_splits)

lemma reconcile_pending:
  "pendingInputs (reconcileWithServer P serverState s perfNow) = dropConfirmed (pendingInputs P) s"
proof (cases "predictedState P")
  case None
  then show ?thesis unfolding reconcileWithServer_def by (simp add: Let_def)
next
  case (Some pred)
  then show ?thesis unfolding reconcileWithServer_def Let_def by simp
qed

lemma sqrt_16: "sqrt 16 = 4"
proof -
  have "sqrt (4\<^sup>2) = \<bar>4 :: real\<bar>" by (rule real_sqrt_abs)
  then show ?thesis by simp
qed

lemma ex_speed: "Vector_magnitude (b_velocity (ph_body ex_phys)) = 4"
  by (simp add: Vector_magnitude_def ex_phys_def sqrt_16)

lemma pi_small: "\<bar>pi * 9 / 500\<bar> \<le> 2" "\<bar>pi * 9 / 1000\<bar> \<le> 2"
  using pi_gt_zero pi_less_4 by (simp_all add: abs_if)

subsection \<open>C1: the server tick against the predictor step\<close>

lemma ex_tilt_flags:
  "in_steerValue ex_tilt = 1 / 2" "\<not> in_steerLeft ex_tilt" "in_steerRight ex_tilt"
  "\<not> in_accelerate ex_tilt" "\<not> in_brake ex_tilt" "\<not> in_nitro ex_tilt"
  by (simp_all add: ex_tilt_def)

lemma ex_server_turn:
  "p_angularVelocity (predictedOf (serverStep (ex_phys\<lparr>ph_input := Some ex_tilt\<rparr>)))
     = 1782 / 100000 * pi"
proof -
  have s: "server_steerInput ex_tilt = 1"
    by (simp add: server_steerInput_def ex_tilt_flags)
  have f: "speedFactor_of 4 = 1"
    by (simp add: speedFactor_of_def)
  have a0: "b_angle (ph_body ex_phys) = 0" and v0: "b_velocity (ph_body ex_phys) = \<lparr>vec_x = 0, vec_y = - 4\<rparr>"
    by (simp_all add: ex_phys_def)
  have sp: "Vector_magnitude \<lparr>vec_x = 0, vec_y = - 4\<rparr> = 4"
    by (simp add: Vector_magnitude_def sqrt_16)
  have "b_angularVelocity (ph_body (updateCar (ex_phys\<lparr>ph_input := Some ex_tilt\<rparr>) (1 / 60)))
          = 18 / 1000 * pi"
    unfolding updateCar_def
    using pi_small
    by (simp add: Let_def s f ex_tilt_flags sp a0 v0 Vector_dot_def
          Body_setAngularVelocity_def Body_setVelocity_def
          Body_applyForce_def MAX_SPEED_def NITRO_BOOST_MULTIPLIER_def MAX_ANGULAR_VELOCITY_def
          MAX_STEERING_ANGLE_def)
  then show ?thesis
    unfolding predictedOf_def serverStep_def Body_update_def by (simp add: Let_def)
qed

lemma ex_client_turn:
  "p_angularVelocity (simulateStep (predictedOf ex_phys) (recordOf ex_tilt)) = 891 / 100000 * pi"
proof -
  have c: "client_steerInput (recordOf ex_tilt) = 1 / 2"
    by (simp add: client_steerInput_def recordOf_def ex_tilt_flags)
  have f: "speedFactor_of 4 = 1"
    by (simp add: speedFactor_of_def)
  have p: "predictedOf ex_phys = \<lparr>p_x = 300, p_y = 200, p_rotation = 0, p_vx = 0, p_vy = - 4,
                                   p_angularVelocity = 1 / 10\<rparr>"
    by (simp add: predictedOf_def ex_phys_def)
  show ?thesis
    unfolding simulateStep_def p
    using pi_small
    by (simp add: Let_def c f sqrt_16 MAX_ANGULAR_VELOCITY_def MAX_STEERING_ANGLE_def
          MATTER_FRICTION_AIR_def)
qed

text \<open>
  C1. From the same state (speed 4 straight ahead) and the same input (analog value 1/2
  with the right flag set) the server's tick and the predictor's step give different
  next states: the server steers with the flag, the predictor with the analog value, and
  the angular velocities are \<open>0.01782 \<pi>\<close> and \<open>0.00891 \<pi>\<close>.
\<close>

theorem C1_server_and_client_steps_differ:
  "in_steerValue ex_tilt = 1 / 2 \<and> in_steerRight ex_tilt
   \<and> p_angularVelocity (predictedOf (serverStep (ex_phys\<lparr>ph_input := Some ex_tilt\<rparr>)))
        = 1782 / 100000 * pi
   \<and> p_angularVelocity (simulateStep (predictedOf ex_phys) (recordOf ex_tilt))
        = 891 / 100000 * pi
   \<and> predictedOf (serverStep (ex_phys\<lparr>ph_input := Some ex_tilt\<rparr>))
        \<noteq> simulateStep (predictedOf (ex_phys\<lparr>ph_input := Some ex_tilt\<rparr>)) (recordOf ex_tilt)"
proof -
  have same: "predictedOf (ex_phys\<lparr>ph_input := Some ex_tilt\<rparr>) = predictedOf ex_phys"
    by (simp add: predictedOf_def)
  have "p_angularVelocity (predictedOf (serverStep (ex_phys\<lparr>ph_input := Some ex_tilt\<rparr>)))
          \<noteq> p_angularVelocity (simulateStep (predictedOf ex_phys) (recordOf ex_tilt))"
    unfolding ex_server_turn ex_client_turn using pi_gt_zero by simp
  then have "predictedOf (serverStep (ex_phys\<lparr>ph_input := Some ex_tilt\<rparr>))
        \<noteq> simulateStep (predictedOf ex_phys) (recordOf ex_tilt)"
    by metis
  then show ?thesis
    using ex_server_turn ex_client_turn ex_tilt_flags unfolding same by (intro conjI)
qed

subsection \<open>C2: the steering input of the server\<close>

text \<open>
  C2. The server's steering stage reads the two flags only. For the input of a slight
  tilt (analog value 1/10, no flag set) its steering input is 0 where the client's is
  1/10, and the server's tick centres the wheels: the angular velocity goes from 0.1 to
  0.085.
\<close>

theorem C2_server_ignores_analog_steering:
  "in_steerValue ex_tilt_small = 1 / 10
   \<and> \<not> in_steerLeft ex_tilt_small \<and> \<not> in_steerRight ex_tilt_small
   \<and> server_steerInput ex_tilt_small = 0
   \<and> client_steerInput (recordOf ex_tilt_small) = 1 / 10
   \<and> b_angularVelocity (ph_body ex_phys) = 1 / 10
   \<and> b_angularVelocity (ph_body (updateCar (ex_phys\<lparr>ph_input := Some ex_tilt_small\<rparr>) (1 / 60)))
        = 85 / 1000"
proof -
  have s: "server_steerInput ex_tilt_small = 0"
    by (simp add: server_steerInput_def ex_tilt_small_def ex_tilt_def)
  have c: "client_steerInput (recordOf ex_tilt_small) = 1 / 10"
    by (simp add: client_steerInput_def recordOf_def ex_tilt_small_def ex_tilt_def)
  have i: "in_steerValue ex_tilt_small = 1 / 10" "\<not> in_steerLeft ex_tilt_small"
    "\<not> in_steerRight ex_tilt_small" "\<not> in_accelerate ex_tilt_small" "\<not> in_brake ex_tilt_small"
    "\<not> in_nitro ex_tilt_small"
    by (simp_all add: ex_tilt_small_def ex_tilt_def)
  have a0: "b_angularVelocity (ph_body ex_phys) = 1 / 10"
    by (simp add: ex_phys_def)
  have "b_angularVelocity (ph_body (updateCar (ex_phys\<lparr>ph_input := Some ex_tilt_small\<rparr>) (1 / 60)))
        = 85 / 1000"
    unfolding updateCar_def
    by (simp add: Let_def s i ex_speed a0 Body_setAngularVelocity_def Body_setVelocity_def
          Body_applyForce_def MAX_SPEED_def NITRO_BOOST_MULTIPLIER_def MAX_ANGULAR_VELOCITY_def)
  then show ?thesis using s c i a0 by simp
qed

subsection \<open>C3: positions on a wrap-around track\<close>
















subsection \<open>C4: respawn\<close>

lemma resetCar_body:
  assumes "map_of (pe_cars pe) playerId = Some phys"
  shows "\<exists>phys'. map_of (pe_cars (resetCar pe playerId position rotation now)) playerId = Some phys'
           \<and> b_position (ph_body phys') = position
           \<and> b_angle (ph_body phys') = rotation
           \<and> b_velocity (ph_body phys') = \<lparr>vec_x = 0, vec_y = 0\<rparr>
           \<and> b_angularVelocity (ph_body phys') = 0"
  unfolding resetCar_def using assms
  by (simp add: Let_def map_of_Map_set_same Body_setPosition_def Body_setAngle_def
        Body_setVelocity_def Body_setAngularVelocity_def)

text \<open>
  C4 (as the code has it). For a car that is not finished, a respawn request appends a
  respawn event to the pending events. The target is the checkpoint at position
  \<open>max 0 (checkpoint - 1)\<close> of the checkpoints sorted by index, where \<open>checkpoint\<close> is
  the number of checkpoints the car has passed in its lap: the last passed checkpoint,
  or the first checkpoint when none has been passed. When the track has that checkpoint,
  the car and its physics body are put at the centre of the checkpoint with the
  checkpoint's rotation and with zero velocity and angular velocity; when it has not,
  the car and the physics state stay as they are.
\<close>

theorem C4_respawn_to_checkpoint:
  fixes room :: GameRoom and playerId :: string and now :: int and car :: CarState
  defines "room' \<equiv> handleRespawn room playerId now"
  defines "target \<equiv> nth_opt (sortedCheckpointElements (gr_track room))
                              (max 0 (cs_checkpoint car - 1))"
  assumes car: "map_of (gr_cars room) playerId = Some car"
    and unfinished: "\<not> cs_finished car"
  shows "gr_pendingEvents room' = gr_pendingEvents room @ [EvRespawn playerId]
       \<and> (\<forall>el. target = Some el \<longrightarrow>
            (\<exists>car'. map_of (gr_cars room') playerId = Some car'
               \<and> cs_position car' = \<lparr>vec_x = el_x el + el_width el / 2,
                                       vec_y = el_y el + el_height el / 2\<rparr>
               \<and> cs_rotation car' = el_rotation el
               \<and> cs_velocity car' = \<lparr>vec_x = 0, vec_y = 0\<rparr>
               \<and> cs_angularVelocity car' = 0)
          \<and> (\<forall>phys. map_of (pe_cars (gr_physics room)) playerId = Some phys \<longrightarrow>
               (\<exists>phys'. map_of (pe_cars (gr_physics room')) playerId = Some phys'
                  \<and> b_position (ph_body phys') = \<lparr>vec_x = el_x el + el_width el / 2,
                                                     vec_y = el_y el + el_height el / 2\<rparr>
                  \<and> b_angle (ph_body phys') = el_rotation el
                  \<and> b_velocity (ph_body phys') = \<lparr>vec_x = 0, vec_y = 0\<rparr>
                  \<and> b_angularVelocity (ph_body phys') = 0)))
       \<and> (target = None \<longrightarrow> gr_cars room' = gr_cars room \<and> gr_physics room' = gr_physics room)"
proof (intro conjI allI impI)
  show "gr_pendingEvents room' = gr_pendingEvents room @ [EvRespawn playerId]"
    unfolding room'_def handleRespawn_def using car unfinished
    by (simp add: Let_def split: option.splits)
next
  fix el assume t: "target = Some el"
  let ?pos = "\<lparr>vec_x = el_x el + el_width el / 2, vec_y = el_y el + el_height el / 2\<rparr>"
  have r': "room' = (room\<lparr>gr_cars := Map_set (gr_cars room) playerId
                                (car\<lparr>cs_position := ?pos, cs_rotation := el_rotation el,
                                     cs_velocity := \<lparr>vec_x = 0, vec_y = 0\<rparr>,
                                     cs_angularVelocity := 0\<rparr>),
                           gr_physics := resetCar (gr_physics room) playerId ?pos (el_rotation el) now\<rparr>)
                     \<lparr>gr_pendingEvents := gr_pendingEvents room @ [EvRespawn playerId]\<rparr>"
    unfolding room'_def handleRespawn_def using car unfinished t [unfolded target_def]
    by (simp add: Let_def or_zero_def)
  show "\<exists>car'. map_of (gr_cars room') playerId = Some car'
               \<and> cs_position car' = ?pos
               \<and> cs_rotation car' = el_rotation el
               \<and> cs_velocity car' = \<lparr>vec_x = 0, vec_y = 0\<rparr>
               \<and> cs_angularVelocity car' = 0"
    unfolding r' by (simp add: map_of_Map_set_same)
  fix phys assume "map_of (pe_cars (gr_physics room)) playerId = Some phys"
  then show "\<exists>phys'. map_of (pe_cars (gr_physics room')) playerId = Some phys'
                  \<and> b_position (ph_body phys') = ?pos
                  \<and> b_angle (ph_body phys') = el_rotation el
                  \<and> b_velocity (ph_body phys') = \<lparr>vec_x = 0, vec_y = 0\<rparr>
                  \<and> b_angularVelocity (ph_body phys') = 0"
    unfolding r' using resetCar_body [of "gr_physics room" playerId phys ?pos "el_rotation el" now]
    by simp
next
  assume "target = None"
  then show "gr_cars room' = gr_cars room" and "gr_physics room' = gr_physics room"
    unfolding room'_def handleRespawn_def target_def using car unfinished
    by (simp_all add: Let_def)
qed

lemma ex_sorted_checkpoints:
  "sortedCheckpointElements ex_track =
     [\<lparr>el_id = ''k0'', el_type = ty_checkpoint, el_x = 500, el_y = 100, el_width = 100,
       el_height = 100, el_rotation = 0, el_checkpointIndex = Some 0, el_layer = None\<rparr>,
      \<lparr>el_id = ''k1'', el_type = ty_checkpoint, el_x = 600, el_y = 400, el_width = 100,
       el_height = 100, el_rotation = 1, el_checkpointIndex = Some 1, el_layer = None\<rparr>]"
  by (simp add: sortedCheckpointElements_def ex_track_def checkpointKey_def)

lemma ex_room_track: "gr_track ex_room = ex_track"
  by (simp add: ex_room_def)

lemma ex_spawns:
  "map (\<lambda>el. (el_x el + el_width el / 2, el_y el + el_height el / 2)) (spawnElements ex_track)
     = [(180, 470)]"
  by (simp add: spawnElements_def ex_track_def)

theorem C4_respawn_to_checkpoint_witness:
  "map_of (gr_cars ex_room) ''p1'' = Some ex_car \<and> \<not> cs_finished ex_car
   \<and> nth_opt (sortedCheckpointElements (gr_track ex_room)) (max 0 (cs_checkpoint ex_car - 1))
        = Some (hd (sortedCheckpointElements ex_track))
   \<and> gr_pendingEvents (handleRespawn ex_room ''p1'' 9) = [EvRespawn ''p1'']
   \<and> (\<exists>car'. map_of (gr_cars (handleRespawn ex_room ''p1'' 9)) ''p1'' = Some car'
          \<and> cs_position car' = \<lparr>vec_x = 550, vec_y = 150\<rparr>
          \<and> cs_rotation car' = 0
          \<and> cs_velocity car' = \<lparr>vec_x = 0, vec_y = 0\<rparr>
          \<and> cs_angularVelocity car' = 0)"
proof -
  have c: "map_of (gr_cars ex_room) ''p1'' = Some ex_car"
    by (simp add: ex_room_def)
  have u: "\<not> cs_finished ex_car"
    by (simp add: ex_car_def createInitialCarState_def)
  have t: "nth_opt (sortedCheckpointElements (gr_track ex_room)) (max 0 (cs_checkpoint ex_car - 1))
        = Some (hd (sortedCheckpointElements ex_track))"
    by (simp add: ex_room_track ex_sorted_checkpoints nth_opt_def ex_car_def
          createInitialCarState_def)
  have p: "gr_pendingEvents ex_room = []" by (simp add: ex_room_def)
  show ?thesis
    using c u t C4_respawn_to_checkpoint [OF c u, of 9]
    unfolding t p by (auto simp: ex_sorted_checkpoints)
qed

text \<open>
  C4 as stated fails: a car that has passed no checkpoint is put at the first checkpoint,
  (550, 150) on the example track, and not at the spawn point (180, 470).
\<close>

theorem C4_respawn_without_checkpoint_counterexample:
  "cs_checkpoint ex_car = 0 \<and> \<not> cs_finished ex_car
   \<and> map_of (gr_cars ex_room) ''p1'' = Some ex_car
   \<and> map (\<lambda>el. (el_x el + el_width el / 2, el_y el + el_height el / 2))
          (spawnElements (gr_track ex_room)) = [(180, 470)]
   \<and> map_option cs_position (map_of (gr_cars (handleRespawn ex_room ''p1'' 9)) ''p1'')
        = Some \<lparr>vec_x = 550, vec_y = 150\<rparr>"
proof -
  have c: "map_of (gr_cars ex_room) ''p1'' = Some ex_car"
    by (simp add: ex_room_def)
  have k: "cs_checkpoint ex_car = 0" and u: "\<not> cs_finished ex_car"
    by (simp_all add: ex_car_def createInitialCarState_def)
  have "map_option cs_position (map_of (gr_cars (handleRespawn ex_room ''p1'' 9)) ''p1'')
        = Some \<lparr>vec_x = 550, vec_y = 150\<rparr>"
    unfolding handleRespawn_def
    by (simp add: c k u ex_room_track ex_sorted_checkpoints nth_opt_def Let_def
          map_of_Map_set_same)
  then show ?thesis
    using c k u by (simp add: ex_room_track ex_spawns)
qed

subsection \<open>C5: acknowledged inputs leave the FIFO\<close>

lemma dropConfirmed_sorted:
  "sorted (map ir_sequence xs) \<Longrightarrow> i \<in> set (dropConfirmed xs s) \<Longrightarrow> s < ir_sequence i"
  by (induction xs) (auto split: if_splits)

text \<open>
  C5. When the pending inputs are in ascending order of sequence number, every pending
  input whose sequence number is at most the acknowledged sequence of the snapshot is
  gone from the pending inputs after \<^verbatim>\<open>reconcileWithServer\<close>.
\<close>

theorem C5_acknowledged_inputs_dropped:
  assumes "sorted (map ir_sequence (pendingInputs P))"
    and "i \<in> set (pendingInputs P)"
    and "ir_sequence i \<le> serverSequence"
  shows "i \<notin> set (pendingInputs (reconcileWithServer P serverState serverSequence perfNow))"
  using assms dropConfirmed_sorted [of "pendingInputs P" i serverSequence]
  unfolding reconcile_pending by fastforce

theorem C5_acknowledged_inputs_dropped_witness:
  "sorted (map ir_sequence (pendingInputs ex_predictor))
   \<and> ex_rec 3 \<in> set (pendingInputs ex_predictor)
   \<and> ir_sequence (ex_rec 3) \<le> 4
   \<and> ex_rec 3 \<notin> set (pendingInputs (reconcileWithServer ex_predictor
        \<lparr>s_x = 300, s_y = 200, s_rotation = 0, s_vx = 0, s_vy = - 4, s_angularVelocity = None\<rparr>
        4 0))"
proof -
  have a: "sorted (map ir_sequence (pendingInputs ex_predictor))"
    and b: "ex_rec 3 \<in> set (pendingInputs ex_predictor)"
    and c: "ir_sequence (ex_rec 3) \<le> 4"
    by (simp_all add: ex_predictor_def ex_rec_def)
  show ?thesis
    using a b c C5_acknowledged_inputs_dropped [OF a b c] by simp
qed

text \<open>
  Recording an input whose sequence number is not below those pending keeps the pending
  inputs in ascending order: the trim only removes inputs from the front.
\<close>

lemma trimPending_drop: "trimPending xs = drop (length xs - MAX_PENDING_INPUTS) xs"
proof (induction xs rule: trimPending.induct)
  case (1 xs)
  show ?case
  proof (cases "length xs > MAX_PENDING_INPUTS")
    case True
    then have "xs \<noteq> []" by auto
    then obtain a as where xs: "xs = a # as" by (cases xs) auto
    have "trimPending xs = trimPending (tl xs)" using True by (subst trimPending.simps) simp
    also have "\<dots> = drop (length (tl xs) - MAX_PENDING_INPUTS) (tl xs)" using 1 True by simp
    also have "\<dots> = drop (length xs - MAX_PENDING_INPUTS) xs"
      using True xs by (simp add: Suc_diff_le drop_Cons')
    finally show ?thesis .
  next
    case False
    then show ?thesis by (subst trimPending.simps) simp
  qed
qed

lemma recordInput_keeps_ascending:
  assumes "sorted (map ir_sequence (pendingInputs P))"
    and "\<forall>j \<in> set (pendingInputs P). ir_sequence j \<le> ir_sequence input"
  shows "sorted (map ir_sequence (pendingInputs (recordInput P input)))"
proof -
  let ?n = "length (pendingInputs P @ [input]) - MAX_PENDING_INPUTS"
  have "sorted (map ir_sequence (pendingInputs P @ [input]))"
    using assms by (simp add: sorted_append)
  then have "sorted (drop ?n (map ir_sequence (pendingInputs P @ [input])))"
    by (rule sorted_wrt_drop)
  moreover have "pendingInputs (recordInput P input) = drop ?n (pendingInputs P @ [input])"
    unfolding recordInput_def trimPending_drop by simp
  ultimately show ?thesis
    by (simp only: drop_map)
qed

subsection \<open>C6: joining a room\<close>

lemma removePlayer_players_length:
  "length (gr_players (removePlayer room p)) \<le> length (gr_players room)"
  unfolding removePlayer_def
  by (auto simp: Let_def emit_def Map_delete_def split: option.splits list.splits)

lemma removePlayer_settings: "gr_settings (removePlayer room p) = gr_settings room"
  unfolding removePlayer_def
  by (auto simp: Let_def emit_def split: option.splits list.splits)

lemma removePlayer_not_full: "\<not> isFull room \<Longrightarrow> \<not> isFull (removePlayer room p)"
  unfolding isFull_def
  using removePlayer_players_length [of room p] removePlayer_settings [of room p] by simp

lemma shutdown_not_full: "\<not> isFull room \<Longrightarrow> \<not> isFull (shutdown room)"
  unfolding isFull_def shutdown_def by simp

lemma removeRoom_not_full:
  "\<not> isFull (rm_store rm r) \<Longrightarrow> \<not> isFull (rm_store (removeRoom rm roomId) r)"
  unfolding removeRoom_def
  by (auto simp: shutdown_not_full split: option.splits)

lemma leaveRoom_not_full:
  assumes "\<not> isFull (rm_store rm r)"
  shows "\<not> isFull (rm_store (leaveRoom rm p) r)"
proof (cases "getPlayerRoom rm p")
  case None
  then show ?thesis using assms by (simp add: leaveRoom_def)
next
  case (Some r0)
  define rm1 where "rm1 = rm\<lparr>rm_store := (rm_store rm)(r0 := removePlayer (rm_store rm r0) p),
                        rm_playerRooms := Map_delete (rm_playerRooms rm) p\<rparr>"
  have nf1: "\<not> isFull (rm_store rm1 r)"
    unfolding rm1_def using assms by (auto simp: removePlayer_not_full)
  have "leaveRoom rm p = (if isEmpty (rm_store rm1 r0) then removeRoom rm1 (gr_id (rm_store rm1 r0)) else rm1)"
    unfolding leaveRoom_def rm1_def using Some by (simp add: Let_def)
  then show ?thesis using nf1 by (simp add: removeRoom_not_full)
qed

lemma addPlayer_not_full: "\<not> isFull room \<Longrightarrow> snd (addPlayer room p n c u t) \<noteq> None"
  unfolding addPlayer_def by (simp add: Let_def split: option.splits)

text \<open>
  C6 (as the code has it). \<^verbatim>\<open>joinRoom\<close> fails with the reason "Room not found" when
  neither index has the room, with "Room is full" when the room is full, with "Race
  already in progress" when the room is racing and does not allow joining mid-race, and
  succeeds in every other case, whether or not the room is private and whether it was
  found by identifier or by code.
\<close>

theorem C6_joinRoom_outcomes:
  fixes rm :: RoomManager and roomIdOrCode playerId nickname uuid :: string
    and preferredColor :: CarColor and now :: int
  defines "res \<equiv> snd (joinRoom rm roomIdOrCode playerId nickname preferredColor uuid now)"
  shows "(findRoom rm roomIdOrCode = None \<longrightarrow>
            \<not> jr_success res \<and> jr_error res = Some ''Room not found'')
       \<and> (\<forall>r. findRoom rm roomIdOrCode = Some r \<longrightarrow>
            (isFull (rm_store rm r) \<longrightarrow>
               \<not> jr_success res \<and> jr_error res = Some ''Room is full'')
          \<and> (\<not> isFull (rm_store rm r) \<and> gr_state (rm_store rm r) = rs_racing
               \<and> \<not> gs_allowMidRaceJoin (gr_settings (rm_store rm r)) \<longrightarrow>
               \<not> jr_success res \<and> jr_error res = Some ''Race already in progress'')
          \<and> (\<not> isFull (rm_store rm r)
               \<and> \<not> (gr_state (rm_store rm r) = rs_racing
                      \<and> \<not> gs_allowMidRaceJoin (gr_settings (rm_store rm r))) \<longrightarrow>
               jr_success res \<and> jr_room res = Some r \<and> jr_error res = None))"
proof (intro conjI impI allI)
  assume "findRoom rm roomIdOrCode = None"
  then show "\<not> jr_success res" and "jr_error res = Some ''Room not found''"
    unfolding res_def joinRoom_def by simp_all
next
  fix r assume "findRoom rm roomIdOrCode = Some r" and "isFull (rm_store rm r)"
  then show "\<not> jr_success res" and "jr_error res = Some ''Room is full''"
    unfolding res_def joinRoom_def by simp_all
next
  fix r assume "findRoom rm roomIdOrCode = Some r"
    and "\<not> isFull (rm_store rm r) \<and> gr_state (rm_store rm r) = rs_racing
               \<and> \<not> gs_allowMidRaceJoin (gr_settings (rm_store rm r))"
  then show "\<not> jr_success res" and "jr_error res = Some ''Race already in progress''"
    unfolding res_def joinRoom_def by simp_all
next
  fix r assume f: "findRoom rm roomIdOrCode = Some r"
    and ok: "\<not> isFull (rm_store rm r)
               \<and> \<not> (gr_state (rm_store rm r) = rs_racing
                      \<and> \<not> gs_allowMidRaceJoin (gr_settings (rm_store rm r)))"
  define rm1 where "rm1 = (case getPlayerRoom rm playerId of
                                None \<Rightarrow> rm
                              | Some currentRoom \<Rightarrow> leaveRoom rm playerId)"
  have nf: "\<not> isFull (rm_store rm1 r)"
    unfolding rm1_def using ok by (simp add: leaveRoom_not_full split: option.splits)
  obtain room' player where ap: "addPlayer (rm_store rm1 r) playerId nickname preferredColor uuid now
                                   = (room', player)"
    by (cases "addPlayer (rm_store rm1 r) playerId nickname preferredColor uuid now")
  have "player \<noteq> None" using addPlayer_not_full [OF nf, of playerId nickname preferredColor uuid now]
    unfolding ap by simp
  then obtain p where p: "player = Some p" by blast
  have "res = \<lparr>jr_success = True, jr_room = Some r, jr_player = Some p, jr_error = None\<rparr>"
    unfolding res_def joinRoom_def using f ok ap p
    by (simp add: Let_def rm1_def [symmetric])
  then show "jr_success res" and "jr_room res = Some r" and "jr_error res = None"
    by simp_all
qed

theorem C6_joinRoom_outcomes_witness:
  "findRoom ex_manager ''abc234'' = Some 0
   \<and> \<not> isFull (rm_store ex_manager 0)
   \<and> \<not> (gr_state (rm_store ex_manager 0) = rs_racing
          \<and> \<not> gs_allowMidRaceJoin (gr_settings (rm_store ex_manager 0)))
   \<and> jr_success (snd (joinRoom ex_manager ''abc234'' ''p2'' ''Bob'' c_blue ''car-2'' 5))
   \<and> jr_room (snd (joinRoom ex_manager ''abc234'' ''p2'' ''Bob'' c_blue ''car-2'' 5)) = Some 0
   \<and> findRoom ex_manager ''nowhere'' = None
   \<and> jr_error (snd (joinRoom ex_manager ''nowhere'' ''p2'' ''Bob'' c_blue ''car-2'' 5))
       = Some ''Room not found''"
proof -
  have up: "toUpperCase ''abc234'' = ''ABC234''"
    by code_simp
  have f: "findRoom ex_manager ''abc234'' = Some 0"
    by (simp add: findRoom_def ex_manager_def up)
  have up': "toUpperCase ''nowhere'' = ''NOWHERE''"
    by code_simp
  have n: "findRoom ex_manager ''nowhere'' = None"
    by (simp add: findRoom_def ex_manager_def up')
  have nf: "\<not> isFull (rm_store ex_manager 0)"
    by (simp add: isFull_def ex_manager_def ex_lobby_def ex_room_def)
  have st: "\<not> (gr_state (rm_store ex_manager 0) = rs_racing
          \<and> \<not> gs_allowMidRaceJoin (gr_settings (rm_store ex_manager 0)))"
    by (simp add: ex_manager_def ex_lobby_def)
  show ?thesis
    using f n nf st
      C6_joinRoom_outcomes [of ex_manager "''abc234''" "''p2''" "''Bob''" c_blue "''car-2''" 5]
      C6_joinRoom_outcomes [of ex_manager "''nowhere''" "''p2''" "''Bob''" c_blue "''car-2''" 5]
    by simp
qed

text \<open>
  C6 as stated fails: a join by identifier to a private room that is neither full nor
  racing succeeds.
\<close>

theorem C6_private_join_by_id_counterexample:
  "gs_isPrivate (gr_settings (rm_store ex_manager 0))
   \<and> map_of (rm_rooms ex_manager) ''room-1'' = Some 0
   \<and> jr_success (snd (joinRoom ex_manager ''room-1'' ''p2'' ''Bob'' c_blue ''car-2'' 5))"
  by (simp add: ex_manager_def ex_lobby_def ex_room_def joinRoom_def findRoom_def isFull_def
        getPlayerRoom_def addPlayer_def Let_def emit_def ex_player_def roomPlayerOf_def)

subsection \<open>C7: lap times\<close>

lemma fold_plus_sum_list: "fold (\<lambda>t sum. sum + t) xs (a::int) = a + sum_list xs"
  by (induction xs arbitrary: a) auto

lemma handlePlayerFinish_lapTimes:
  "map_of (gr_cars room) playerId = Some car \<Longrightarrow>
   \<exists>car'. map_of (gr_cars (handlePlayerFinish room playerId pos tot)) playerId = Some car'
          \<and> cs_lapTimes car' = cs_lapTimes car"
  unfolding handlePlayerFinish_def
  by (auto simp: Let_def emit_def map_of_Map_set_same split: option.splits)

lemma handlePlayerFinish_emitted:
  "\<exists>rest. gr_emitted (handlePlayerFinish room playerId pos tot) = gr_emitted room @ rest"
  unfolding handlePlayerFinish_def
  by (auto simp: Let_def emit_def split: option.splits)

text \<open>
  C7. When a lap completion is handled for a car of the room, the lap time passed to
  \<^verbatim>\<open>lap_completed\<close> is the race's elapsed time minus the sum of the lap times recorded
  for the car so far (the whole elapsed time for the first lap), that lap time is appended
  to the car's recorded lap times, and the recorded lap times then sum to the elapsed
  time exactly.
\<close>

theorem C7_lap_time_is_elapsed_minus_prior:
  fixes room :: GameRoom and playerId :: string and lap t :: int and car :: CarState
  assumes car: "map_of (gr_cars room) playerId = Some car"
  defines "elapsed \<equiv> g_elapsedTime (gr_gameState room)"
  defines "room' \<equiv> handleLapComplete room playerId lap t"
  shows "\<exists>car' rest.
           gr_emitted room' =
             gr_emitted room @ lap_completed playerId lap (elapsed - sum_list (cs_lapTimes car)) # rest
         \<and> map_of (gr_cars room') playerId = Some car'
         \<and> cs_lapTimes car' = cs_lapTimes car @ [elapsed - sum_list (cs_lapTimes car)]
         \<and> sum_list (cs_lapTimes car') = elapsed"
proof -
  define lt where "lt = elapsed - sum_list (cs_lapTimes car)"
  define car1 where "car1 = car\<lparr>cs_lap := lap, cs_checkpoint := 0,
                          cs_lapTimes := cs_lapTimes car @ [lt]\<rparr>"
  define room2 where "room2 = emit (room\<lparr>gr_cars := Map_set (gr_cars room) playerId car1\<rparr>)
                                (lap_completed playerId lap lt)"
  define room3 where "room3 = (case map_of (gr_players room2) playerId of
                          None \<Rightarrow> room2
                        | Some player \<Rightarrow>
                            room2\<lparr>gr_leaderboardCalls := gr_leaderboardCalls room2 @
                                     [call_submitLapTime (tr_id (gr_track room2))
                                        (pl_nickname player) lt]\<rparr>)"
  have r': "room' = (if lap \<ge> gs_lapCount (gr_settings room3)
              then handlePlayerFinish room3 playerId
                     (int (length (g_finishedPlayers (gr_gameState room3))) + 1)
                     (g_elapsedTime (gr_gameState room3))
              else room3)"
    unfolding room'_def handleLapComplete_def room3_def room2_def car1_def lt_def elapsed_def
    by (simp add: car Let_def fold_plus_sum_list)
  have em3: "gr_emitted room3 = gr_emitted room @ [lap_completed playerId lap lt]"
    unfolding room3_def room2_def emit_def by (simp split: option.splits)
  have cars3: "map_of (gr_cars room3) playerId = Some car1"
    unfolding room3_def room2_def emit_def
    by (simp add: map_of_Map_set_same split: option.splits)
  have lts: "cs_lapTimes car1 = cs_lapTimes car @ [lt]"
    unfolding car1_def by simp
  have total: "sum_list (cs_lapTimes car1) = elapsed"
    unfolding lts lt_def by simp
  have "\<exists>car' rest.
           gr_emitted room' = gr_emitted room @ lap_completed playerId lap lt # rest
         \<and> map_of (gr_cars room') playerId = Some car'
         \<and> cs_lapTimes car' = cs_lapTimes car @ [lt]
         \<and> sum_list (cs_lapTimes car') = elapsed"
  proof (cases "lap \<ge> gs_lapCount (gr_settings room3)")
    case False
    then have eq: "room' = room3" using r' by simp
    have "gr_emitted room' = gr_emitted room @ lap_completed playerId lap lt # []"
      unfolding eq em3 by simp
    moreover have "map_of (gr_cars room') playerId = Some car1"
      unfolding eq by (rule cars3)
    ultimately show ?thesis using lts total by blast
  next
    case True
    then have eq: "room' = handlePlayerFinish room3 playerId
                     (int (length (g_finishedPlayers (gr_gameState room3))) + 1)
                     (g_elapsedTime (gr_gameState room3))"
      using r' by simp
    obtain car' where c': "map_of (gr_cars room') playerId = Some car'"
        and l': "cs_lapTimes car' = cs_lapTimes car1"
      using handlePlayerFinish_lapTimes [OF cars3] unfolding eq by blast
    obtain rest where e': "gr_emitted room' = gr_emitted room3 @ rest"
      using handlePlayerFinish_emitted unfolding eq by blast
    have "gr_emitted room' = gr_emitted room @ lap_completed playerId lap lt # rest"
      unfolding e' em3 by simp
    moreover have "cs_lapTimes car' = cs_lapTimes car @ [lt]"
      unfolding l' by (rule lts)
    moreover have "sum_list (cs_lapTimes car') = elapsed"
      unfolding l' by (rule total)
    ultimately show ?thesis using c' by blast
  qed
  then show ?thesis unfolding lt_def .
qed

theorem C7_lap_time_witness:
  "map_of (gr_cars ex_room) ''p1'' = Some ex_car
   \<and> cs_lapTimes ex_car = [30000]
   \<and> g_elapsedTime (gr_gameState ex_room) = 65000
   \<and> (\<exists>car' rest.
          gr_emitted (handleLapComplete ex_room ''p1'' 2 0) = lap_completed ''p1'' 2 35000 # rest
        \<and> map_of (gr_cars (handleLapComplete ex_room ''p1'' 2 0)) ''p1'' = Some car'
        \<and> cs_lapTimes car' = [30000, 35000]
        \<and> sum_list (cs_lapTimes car') = 65000)"
proof -
  have h: "map_of (gr_cars ex_room) ''p1'' = Some ex_car"
    by (simp add: ex_room_def)
  have l: "cs_lapTimes ex_car = [30000]"
    by (simp add: ex_car_def createInitialCarState_def)
  have e: "g_elapsedTime (gr_gameState ex_room) = 65000" and m: "gr_emitted ex_room = []"
    by (simp_all add: ex_room_def)
  show ?thesis
    using h l e C7_lap_time_is_elapsed_minus_prior [OF h, of 2 0]
    unfolding l e m by simp
qed

subsection \<open>C8: the snapshot round trip\<close>

lemma damage_roundtrip:
  "(case nth_opt damageLevels (indexOf damageLevels d) of Some e \<Rightarrow> e | None \<Rightarrow> none) = d"
  by (cases d) (simp_all add: damageLevels_def indexOf_def nth_opt_def)

lemma round_half_even_close: "\<bar>of_int (round_half_even t) - t\<bar> \<le> 1 / 2"
proof -
  define f where "f = \<lfloor>t\<rfloor>"
  have b: "of_int f \<le> t" "t < of_int f + 1" unfolding f_def by linarith+
  have "\<bar>of_int (if t - of_int f < 1 / 2 then f
                   else if 1 / 2 < t - of_int f then f + 1
                   else if even f then f else f + 1) - t\<bar> \<le> 1 / 2"
    using b by (simp add: abs_if)
  then show ?thesis unfolding round_half_even_def Let_def f_def .
qed

lemma round_half_even_of_int: "round_half_even (of_int n) = n"
  unfolding round_half_even_def Let_def by simp

lemma floor_log2_eq:
  assumes "2 powr of_int k \<le> \<bar>v\<bar>" and "\<bar>v\<bar> < 2 powr (of_int k + 1)"
  shows "\<lfloor>log 2 \<bar>v\<bar>\<rfloor> = k"
proof -
  have "(0::real) < 2 powr of_int k" by simp
  then have pos: "0 < \<bar>v\<bar>" using assms(1) by linarith
  have "of_int k \<le> log 2 \<bar>v\<bar>"
    using assms(1) pos by (simp add: le_log_iff)
  moreover have "log 2 \<bar>v\<bar> < of_int k + 1"
    using assms(2) pos by (simp add: log_less_iff)
  ultimately show ?thesis by linarith
qed

lemma two_powr_floor_log_le:
  assumes "v \<noteq> 0"
  shows "2 powr of_int \<lfloor>log 2 \<bar>v\<bar>\<rfloor> \<le> \<bar>v\<bar>"
proof -
  have "of_int \<lfloor>log 2 \<bar>v\<bar>\<rfloor> \<le> log 2 \<bar>v\<bar>" by (rule of_int_floor_le)
  then have "2 powr of_int \<lfloor>log 2 \<bar>v\<bar>\<rfloor> \<le> 2 powr log 2 \<bar>v\<bar>" by simp
  also have "\<dots> = \<bar>v\<bar>" using assms by simp
  finally show ?thesis .
qed

lemma ulp_bound:
  assumes "v \<noteq> 0"
  shows "2 powr of_int (double_exponent v) \<le> \<bar>v\<bar> / 2 ^ 52 + 2 powr (- 1074)"
proof (cases "- 1022 \<le> \<lfloor>log 2 \<bar>v\<bar>\<rfloor>")
  case True
  then have e: "double_exponent v = \<lfloor>log 2 \<bar>v\<bar>\<rfloor> - 52"
    unfolding double_exponent_def by simp
  have "(2::real) powr of_int (double_exponent v) = 2 powr of_int \<lfloor>log 2 \<bar>v\<bar>\<rfloor> / 2 powr 52"
    unfolding e by (simp add: powr_diff)
  also have "\<dots> = 2 powr of_int \<lfloor>log 2 \<bar>v\<bar>\<rfloor> / 2 ^ 52" by simp
  also have "\<dots> \<le> \<bar>v\<bar> / 2 ^ 52"
    using two_powr_floor_log_le [OF assms] by (simp add: divide_right_mono)
  finally have "2 powr of_int (double_exponent v) \<le> \<bar>v\<bar> / 2 ^ 52" .
  moreover have "(0::real) \<le> 2 powr (- 1074)" by simp
  ultimately show ?thesis by linarith
next
  case False
  then have e: "double_exponent v = - 1074"
    unfolding double_exponent_def by simp
  show ?thesis unfolding e by simp
qed

text \<open>
  Rounding to the nearest double: away from overflow, the result is finite and off by at
  most half a unit in the last place.
\<close>

lemma to_double_close:
  assumes "\<bar>v\<bar> \<le> 2 ^ 100"
  shows "\<exists>r. to_double v = Fin r \<and> \<bar>r - v\<bar> \<le> \<bar>v\<bar> / 2 ^ 53 + 2 powr (- 1075)"
proof (cases "v = 0")
  case True
  then show ?thesis unfolding to_double_def by simp
next
  case False
  define ulp :: real where "ulp = 2 powr of_int (double_exponent v)"
  define r where "r = of_int (round_half_even (v / ulp)) * ulp"
  have up: "0 < ulp" unfolding ulp_def by simp
  have "\<bar>r - v\<bar> = \<bar>of_int (round_half_even (v / ulp)) - v / ulp\<bar> * ulp"
  proof -
    have "r - v = (of_int (round_half_even (v / ulp)) - v / ulp) * ulp"
      unfolding r_def using up by (simp add: field_simps)
    then show ?thesis using up by (simp add: abs_mult)
  qed
  also have "\<dots> \<le> (1 / 2) * ulp"
    using round_half_even_close [of "v / ulp"] up by (intro mult_right_mono) simp_all
  finally have half: "\<bar>r - v\<bar> \<le> ulp / 2" by simp
  have tiny: "(2::real) powr (- 1074) / 2 = 2 powr (- 1075)"
  proof -
    have "(2::real) powr (- 1075) = 2 powr (- 1074 - 1)" by simp
    also have "\<dots> = 2 powr (- 1074) / 2 powr 1" by (subst powr_diff) simp
    finally show ?thesis by simp
  qed
  have "ulp / 2 \<le> (\<bar>v\<bar> / 2 ^ 52 + 2 powr (- 1074)) / 2"
    using ulp_bound [OF False] unfolding ulp_def by simp
  also have "\<dots> = \<bar>v\<bar> / 2 ^ 53 + 2 powr (- 1075)"
    using tiny by (simp add: add_divide_distrib)
  finally have close: "\<bar>r - v\<bar> \<le> \<bar>v\<bar> / 2 ^ 53 + 2 powr (- 1075)"
    using half by linarith
  have small: "(2::real) powr (- 1075) \<le> 1"
  proof -
    have "(2::real) powr (- 1075) \<le> 2 powr 0" by (rule powr_mono) simp_all
    then show ?thesis by simp
  qed
  have "\<bar>r\<bar> \<le> \<bar>v\<bar> + \<bar>v\<bar> / 2 ^ 53 + 1" using close small by linarith
  also have "\<dots> \<le> 2 ^ 100 + 2 ^ 100 / 2 ^ 53 + 1"
    using assms by (intro add_mono divide_right_mono) simp_all
  also have "\<dots> < 2 ^ 1024" by simp
  finally have fin: "\<not> 2 ^ 1024 \<le> r" "\<not> r \<le> - (2 ^ 1024)" by (simp_all add: abs_if split: if_splits)
  have "to_double v = Fin r"
    unfolding to_double_def Let_def using False fin
    by (simp add: r_def ulp_def)
  then show ?thesis using close by blast
qed

lemma tiny_small: "(2::real) powr (- 1075) \<le> 1 / 2 ^ 60"
proof -
  have "(2::real) powr (- 1075) \<le> 2 powr (- 60)" by (rule powr_mono) simp_all
  also have "\<dots> = 1 / 2 ^ 60" by (simp add: powr_minus_divide)
  finally show ?thesis .
qed

lemma Math_round_near: "\<bar>of_int (Math_round p) - p\<bar> \<le> 1 / 2"
  unfolding Math_round_def by linarith

text \<open>
  One quantised field, \<^verbatim>\<open>Math.round(v * k) / k\<close>, in doubles: half a step of the grid, plus
  the rounding of the product and of the quotient.
\<close>

lemma quantize_double_close:
  assumes k: "1 \<le> k" "k \<le> 1000" and v: "\<bar>v\<bar> \<le> 2 ^ 50"
  shows "\<exists>r. divide_double (Math_round_double (times_double v k)) k = Fin r
             \<and> \<bar>r - v\<bar> \<le> 1 / (2 * k) + \<bar>v\<bar> / 2 ^ 52 + 1 / 2 ^ 53"
proof -
  define T :: real where "T = 2 powr (- 1075)"
  have T: "0 \<le> T" "T \<le> 1 / 2 ^ 60" unfolding T_def using tiny_small by simp_all
  have kpos: "0 < k" using k by simp
  have vk: "\<bar>v * k\<bar> = \<bar>v\<bar> * k" using kpos by (simp add: abs_mult)
  have "\<bar>v\<bar> * k \<le> 2 ^ 50 * 1000"
    using k v by (intro mult_mono) simp_all
  then have vk_le: "\<bar>v * k\<bar> \<le> 2 ^ 60" unfolding vk by simp
  then have "\<bar>v * k\<bar> \<le> 2 ^ 100" by simp
  from to_double_close [OF this] obtain p
    where p: "to_double (v * k) = Fin p"
      and pc: "\<bar>p - v * k\<bar> \<le> \<bar>v * k\<bar> / 2 ^ 53 + T"
    unfolding T_def by blast
  define n where "n = Math_round p"
  define q :: real where "q = of_int n / k"
  have np: "\<bar>of_int n - p\<bar> \<le> 1 / 2" unfolding n_def by (rule Math_round_near)
  have nvk: "\<bar>of_int n - v * k\<bar> \<le> 1 / 2 + \<bar>v\<bar> * k / 2 ^ 53 + T"
    using np pc unfolding vk by linarith
  define a where "a = 1 / (2 * k)"
  have a: "0 < a" "a \<le> 1 / 2" unfolding a_def using k by (simp_all add: field_simps)
  have qv: "\<bar>q - v\<bar> \<le> a + \<bar>v\<bar> / 2 ^ 53 + T"
  proof -
    have "q - v = (of_int n - v * k) / k" unfolding q_def using kpos by (simp add: field_simps)
    then have "\<bar>q - v\<bar> = \<bar>of_int n - v * k\<bar> / k" using kpos by simp
    also have "\<dots> \<le> (1 / 2 + \<bar>v\<bar> * k / 2 ^ 53 + T) / k"
      using nvk kpos by (simp add: divide_right_mono)
    also have "\<dots> = a + \<bar>v\<bar> / 2 ^ 53 + T / k"
      unfolding a_def using kpos by (simp add: field_simps)
    also have "\<dots> \<le> a + \<bar>v\<bar> / 2 ^ 53 + T"
    proof -
      have "T / k \<le> T / 1" using T(1) k(1) by (intro divide_left_mono) simp_all
      then show ?thesis by simp
    qed
    finally show ?thesis .
  qed
  have "\<bar>q\<bar> \<le> \<bar>v\<bar> + a + \<bar>v\<bar> / 2 ^ 53 + T" using qv by linarith
  then have ql: "\<bar>q\<bar> \<le> 2 ^ 100" using v a T by simp
  from to_double_close [OF ql] obtain r
    where r: "to_double q = Fin r"
      and rc: "\<bar>r - q\<bar> \<le> \<bar>q\<bar> / 2 ^ 53 + T"
    unfolding T_def by blast
  have res: "divide_double (Math_round_double (times_double v k)) k = Fin r"
    unfolding times_double_def Math_round_double_def divide_double_def
    using p r by (simp add: n_def q_def)
  have "\<bar>r - v\<bar> \<le> a + \<bar>v\<bar> / 2 ^ 52 + 1 / 2 ^ 53"
    using rc qv a T v by simp
  then show ?thesis using res unfolding a_def by blast
qed

lemma quantize_100:
  assumes "\<bar>v\<bar> \<le> 5 * 10 ^ 13"
  shows "\<exists>r. divide_double (Math_round_double (times_double v 100)) 100 = Fin r
             \<and> \<bar>r - v\<bar> < 0.02"
proof -
  have "\<bar>v\<bar> \<le> 2 ^ 50" using assms by simp
  from quantize_double_close [of 100 v, OF _ _ this] obtain r
    where r: "divide_double (Math_round_double (times_double v 100)) 100 = Fin r"
      and c: "\<bar>r - v\<bar> \<le> 1 / (2 * 100) + \<bar>v\<bar> / 2 ^ 52 + 1 / 2 ^ 53"
    by auto
  have "\<bar>r - v\<bar> < 0.02" using c assms by simp
  then show ?thesis using r by blast
qed

lemma quantize_1000:
  assumes "\<bar>v\<bar> \<le> 5 * 10 ^ 12"
  shows "\<exists>r. divide_double (Math_round_double (times_double v 1000)) 1000 = Fin r
             \<and> \<bar>r - v\<bar> < 0.002"
proof -
  have "\<bar>v\<bar> \<le> 2 ^ 50" using assms by simp
  from quantize_double_close [of 1000 v, OF _ _ this] obtain r
    where r: "divide_double (Math_round_double (times_double v 1000)) 1000 = Fin r"
      and c: "\<bar>r - v\<bar> \<le> 1 / (2 * 1000) + \<bar>v\<bar> / 2 ^ 52 + 1 / 2 ^ 53"
    by auto
  have "\<bar>r - v\<bar> < 0.002" using c assms by simp
  then show ?thesis using r by blast
qed

text \<open>Rounding a number whose binary exponent is known.\<close>

lemma to_double_normal:
  assumes "2 ^ k \<le> \<bar>v\<bar>" and "\<bar>v\<bar> < 2 ^ Suc k"
  shows "to_double v =
           (let r = of_int (round_half_even (v / 2 powr (of_int (int k) - 52))) * 2 powr (of_int (int k) - 52)
            in if 2 ^ 1024 \<le> r then PlusInfinity
               else if r \<le> - (2 ^ 1024) then MinusInfinity
               else Fin r)"
proof -
  have a: "2 powr of_int (int k) \<le> \<bar>v\<bar>" using assms(1) by (simp add: powr_realpow)
  have "(2::real) powr (of_int (int k) + 1) = 2 ^ Suc k"
    by (simp add: powr_add powr_realpow)
  then have b: "\<bar>v\<bar> < 2 powr (of_int (int k) + 1)" using assms(2) by simp
  have l: "\<lfloor>log 2 \<bar>v\<bar>\<rfloor> = int k" by (rule floor_log2_eq [OF a b])
  have e: "double_exponent v = int k - 52" unfolding double_exponent_def l by simp
  have "(0::real) < 2 ^ k" by simp
  then have "0 < \<bar>v\<bar>" using assms(1) by linarith
  then have "v \<noteq> 0" by simp
  then show ?thesis unfolding to_double_def e Let_def by simp
qed

lemma far_product: "times_double 1000000000000000.25 100 = Fin 100000000000000032"
proof -
  have "to_double 100000000000000025 = Fin 100000000000000032"
    by (subst to_double_normal [of 56]) (simp_all add: round_half_even_def Let_def)
  then show ?thesis unfolding times_double_def by simp
qed

lemma far_quotient: "divide_double (Fin 100000000000000032) 100 = Fin 1000000000000000.375"
proof -
  have "to_double (100000000000000032 / 100) = Fin 1000000000000000.375"
    by (subst to_double_normal [of 49])
       (simp_all add: round_half_even_def Let_def powr_minus_divide)
  then show ?thesis unfolding divide_double_def by simp
qed

lemma far_is_double: "is_double 1000000000000000.25"
  unfolding is_double_def
  by (subst to_double_normal [of 49])
     (simp_all add: round_half_even_def Let_def powr_minus_divide)

lemma far_x:
  "dsn_x (serializeCarState_double ex_far_car) = Fin 1000000000000000.375"
proof -
  have r: "Math_round_double (Fin 100000000000000032) = Fin 100000000000000032"
    unfolding Math_round_double_def Math_round_def by simp
  have "dsn_x (serializeCarState_double ex_far_car)
          = divide_double (Math_round_double (times_double 1000000000000000.25 100)) 100"
    unfolding serializeCarState_double_def ex_far_car_def createInitialCarState_def by simp
  then show ?thesis by (simp only: far_product r far_quotient)
qed

lemma huge_x: "is_double (2 ^ 1020) \<and> dsn_x (serializeCarState_double ex_huge_car) = PlusInfinity"
proof -
  have d: "is_double (2 ^ 1020)"
    unfolding is_double_def
    by (subst to_double_normal [of 1020]) (simp_all add: round_half_even_def Let_def)
  have "to_double (2 ^ 1020 * 100) = PlusInfinity"
    by (subst to_double_normal [of 1026]) (simp_all add: round_half_even_def Let_def)
  then have "dsn_x (serializeCarState_double ex_huge_car) = PlusInfinity"
    unfolding serializeCarState_double_def ex_huge_car_def createInitialCarState_def
      times_double_def Math_round_double_def divide_double_def
    by simp
  then show ?thesis using d by simp
qed

text \<open>
  C8. In double precision, deserialising a serialised car state gives back each position
  and velocity component of magnitude at most 5e13 within 0.02 and a rotation of magnitude
  at most 5e12 within 0.002; lap, checkpoint, rank, finished flag, layer, last input
  sequence and damage level come back exactly, whatever the state.
\<close>

theorem C8_serialize_roundtrip:
  fixes car :: CarState and existing :: "PartialCarState option"
  defines "car' \<equiv> deserializeCarState_double (serializeCarState_double car) existing"
  shows "(\<bar>vec_x (cs_position car)\<bar> \<le> 5 * 10 ^ 13 \<longrightarrow>
            (\<exists>x'. dvec_x (dcs_position car') = Fin x' \<and> \<bar>x' - vec_x (cs_position car)\<bar> < 0.02))
       \<and> (\<bar>vec_y (cs_position car)\<bar> \<le> 5 * 10 ^ 13 \<longrightarrow>
            (\<exists>y'. dvec_y (dcs_position car') = Fin y' \<and> \<bar>y' - vec_y (cs_position car)\<bar> < 0.02))
       \<and> (\<bar>cs_rotation car\<bar> \<le> 5 * 10 ^ 12 \<longrightarrow>
            (\<exists>r'. dcs_rotation car' = Fin r' \<and> \<bar>r' - cs_rotation car\<bar> < 0.002))
       \<and> (\<bar>vec_x (cs_velocity car)\<bar> \<le> 5 * 10 ^ 13 \<longrightarrow>
            (\<exists>vx'. dvec_x (dcs_velocity car') = Fin vx' \<and> \<bar>vx' - vec_x (cs_velocity car)\<bar> < 0.02))
       \<and> (\<bar>vec_y (cs_velocity car)\<bar> \<le> 5 * 10 ^ 13 \<longrightarrow>
            (\<exists>vy'. dvec_y (dcs_velocity car') = Fin vy' \<and> \<bar>vy' - vec_y (cs_velocity car)\<bar> < 0.02))
       \<and> dcs_lap car' = cs_lap car
       \<and> dcs_checkpoint car' = cs_checkpoint car
       \<and> dcs_position_rank car' = cs_position_rank car
       \<and> dcs_finished car' = cs_finished car
       \<and> dcs_layer car' = cs_layer car
       \<and> dcs_lastInputSequence car' = cs_lastInputSequence car
       \<and> dcs_damage car' = cs_damage car"
proof -
  have px: "dvec_x (dcs_position car')
              = divide_double (Math_round_double (times_double (vec_x (cs_position car)) 100)) 100"
    and py: "dvec_y (dcs_position car')
              = divide_double (Math_round_double (times_double (vec_y (cs_position car)) 100)) 100"
    and pr: "dcs_rotation car'
              = divide_double (Math_round_double (times_double (cs_rotation car) 1000)) 1000"
    and pvx: "dvec_x (dcs_velocity car')
              = divide_double (Math_round_double (times_double (vec_x (cs_velocity car)) 100)) 100"
    and pvy: "dvec_y (dcs_velocity car')
              = divide_double (Math_round_double (times_double (vec_y (cs_velocity car)) 100)) 100"
    unfolding car'_def deserializeCarState_double_def serializeCarState_double_def by simp_all
  have discrete: "dcs_lap car' = cs_lap car \<and> dcs_checkpoint car' = cs_checkpoint car
       \<and> dcs_position_rank car' = cs_position_rank car
       \<and> dcs_finished car' = cs_finished car
       \<and> dcs_layer car' = cs_layer car
       \<and> dcs_lastInputSequence car' = cs_lastInputSequence car
       \<and> dcs_damage car' = cs_damage car"
    unfolding car'_def deserializeCarState_double_def serializeCarState_double_def
    by (simp add: damage_roundtrip)
  show ?thesis
    unfolding px py pr pvx pvy
    using quantize_100 [of "vec_x (cs_position car)"] quantize_100 [of "vec_y (cs_position car)"]
      quantize_1000 [of "cs_rotation car"]
      quantize_100 [of "vec_x (cs_velocity car)"] quantize_100 [of "vec_y (cs_velocity car)"]
      discrete
    by blast
qed

theorem C8_serialize_roundtrip_witness:
  "\<bar>vec_x (cs_position ex_car)\<bar> \<le> 5 * 10 ^ 13
   \<and> \<bar>vec_y (cs_position ex_car)\<bar> \<le> 5 * 10 ^ 13
   \<and> \<bar>cs_rotation ex_car\<bar> \<le> 5 * 10 ^ 12
   \<and> \<bar>vec_x (cs_velocity ex_car)\<bar> \<le> 5 * 10 ^ 13
   \<and> \<bar>vec_y (cs_velocity ex_car)\<bar> \<le> 5 * 10 ^ 13
   \<and> (\<exists>x'. dvec_x (dcs_position (deserializeCarState_double (serializeCarState_double ex_car) None))
              = Fin x' \<and> \<bar>x' - 300\<bar> < 0.02)
   \<and> (\<exists>y'. dvec_y (dcs_position (deserializeCarState_double (serializeCarState_double ex_car) None))
              = Fin y' \<and> \<bar>y' - 200\<bar> < 0.02)
   \<and> (\<exists>r'. dcs_rotation (deserializeCarState_double (serializeCarState_double ex_car) None)
              = Fin r' \<and> \<bar>r' - 0\<bar> < 0.002)
   \<and> (\<exists>vx'. dvec_x (dcs_velocity (deserializeCarState_double (serializeCarState_double ex_car) None))
              = Fin vx' \<and> \<bar>vx' - 0\<bar> < 0.02)
   \<and> (\<exists>vy'. dvec_y (dcs_velocity (deserializeCarState_double (serializeCarState_double ex_car) None))
              = Fin vy' \<and> \<bar>vy' - (- 4)\<bar> < 0.02)
   \<and> dcs_lap (deserializeCarState_double (serializeCarState_double ex_car) None) = 1
   \<and> dcs_lastInputSequence (deserializeCarState_double (serializeCarState_double ex_car) None) = 4
   \<and> dcs_damage (deserializeCarState_double (serializeCarState_double ex_car) None) = none"
proof -
  have e: "vec_x (cs_position ex_car) = 300" "vec_y (cs_position ex_car) = 200"
    "cs_rotation ex_car = 0" "vec_x (cs_velocity ex_car) = 0" "vec_y (cs_velocity ex_car) = - 4"
    "cs_lap ex_car = 1" "cs_lastInputSequence ex_car = 4" "cs_damage ex_car = none"
    by (simp_all add: ex_car_def createInitialCarState_def)
  show ?thesis
    using C8_serialize_roundtrip [of ex_car None] unfolding e by simp
qed

text \<open>
  Far from the origin the doubles are too coarse for the tolerance: at
  x = 1000000000000000.25, which is a double, the product with 100 rounds up by 7, and the
  quotient by 100 rounds to x + 0.125.
\<close>

theorem C8_far_position_counterexample:
  "is_double (vec_x (cs_position ex_far_car))
   \<and> dvec_x (dcs_position (deserializeCarState_double (serializeCarState_double ex_far_car) None))
       = Fin (vec_x (cs_position ex_far_car) + 0.125)
   \<and> \<not> (\<exists>x'. dvec_x (dcs_position
                  (deserializeCarState_double (serializeCarState_double ex_far_car) None)) = Fin x'
             \<and> \<bar>x' - vec_x (cs_position ex_far_car)\<bar> < 0.02)"
proof -
  have x: "vec_x (cs_position ex_far_car) = 1000000000000000.25"
    by (simp add: ex_far_car_def createInitialCarState_def)
  have d: "dvec_x (dcs_position (deserializeCarState_double (serializeCarState_double ex_far_car) None))
             = Fin 1000000000000000.375"
    unfolding deserializeCarState_double_def by (simp add: far_x)
  show ?thesis unfolding x d using far_is_double by simp
qed

subsection \<open>C9: the lap leaderboard\<close>

lemma findIndex_takeWhile:
  "findIndex P xs = (if \<exists>x\<in>set xs. P x then int (length (takeWhile (\<lambda>x. \<not> P x) xs)) else - 1)"
  by (induction xs) (auto simp: Let_def)

lemma find_split:
  "List.find P xs = Some x \<Longrightarrow> \<exists>ys zs. xs = ys @ x # zs \<and> (\<forall>y\<in>set ys. \<not> P y) \<and> P x"
proof (induction xs)
  case Nil
  then show ?case by simp
next
  case (Cons a xs)
  show ?case
  proof (cases "P a")
    case True
    with Cons.prems have "a = x" by simp
    with True show ?thesis by (intro exI [of _ "[]"] exI [of _ xs]) simp
  next
    case False
    with Cons.prems have "List.find P xs = Some x" by simp
    then obtain ys zs where "xs = ys @ x # zs" "\<forall>y\<in>set ys. \<not> P y" "P x"
      using Cons.IH by blast
    with False show ?thesis by (intro exI [of _ "a # ys"] exI [of _ zs]) simp
  qed
qed

lemma getLeaderboard_cached:
  "map_of (lm_leaderboards lm) trackId = Some lb \<Longrightarrow> getLeaderboard lm trackId = (lm, lb)"
  by (simp add: getLeaderboard_def)

lemma sorted_takeWhile_dropWhile:
  fixes f :: "'a \<Rightarrow> int"
  assumes "sorted (map f xs)"
  shows "\<forall>e\<in>set (dropWhile (\<lambda>e. f e \<le> t) xs). t < f e"
using assms proof (induction xs)
  case Nil
  then show ?case by simp
next
  case (Cons a xs)
  then show ?case by (auto simp: )
qed

lemma sorted_prefix_le:
  fixes f :: "'a \<Rightarrow> int"
  shows "\<forall>e\<in>set (takeWhile (\<lambda>e. f e \<le> t) xs). f e \<le> t"
  by (auto dest: set_takeWhileD)

lemma submit_core:
  fixes before :: "LeaderboardEntry list"
  assumes sorted: "sorted (map le_time before)"
    and split: "before = ys @ prior # zs"
    and better: "time < le_time prior"
  defines "r \<equiv> length (takeWhile (\<lambda>e. \<not> time < le_time e) before)"
  defines "i \<equiv> length ys"
  shows "r \<le> i"
    and "\<exists>xs ws. ys @ zs = xs @ ws \<and> length xs = r \<and> (\<forall>e\<in>set xs. le_time e \<le> time)
           \<and> (\<forall>e\<in>set ws. time < le_time e)"
proof -
  let ?Q = "\<lambda>e. \<not> time < le_time e"
  have tw: "takeWhile ?Q before = takeWhile ?Q ys"
  proof (cases "\<forall>x\<in>set ys. ?Q x")
    case True
    then have a: "takeWhile ?Q ys = ys"
      by (simp only: takeWhile_eq_all_conv)
    have b: "takeWhile ?Q (ys @ prior # zs) = ys"
      using True better by (simp add: takeWhile_append2)
    show ?thesis unfolding split by (simp only: a b)
  next
    case False
    then obtain x where "x \<in> set ys" and "\<not> ?Q x" by blast
    then show ?thesis unfolding split by (rule takeWhile_append1)
  qed
  show ri: "r \<le> i"
    unfolding r_def i_def tw by (rule length_takeWhile_le)
  have sys: "sorted (map le_time ys)" and szs: "\<forall>e\<in>set zs. le_time prior \<le> le_time e"
    using sorted unfolding split by (auto simp: sorted_append)
  have Q: "?Q = (\<lambda>e. le_time e \<le> time)" by auto
  have dw: "\<forall>e\<in>set (dropWhile ?Q ys). time < le_time e"
    unfolding Q using sorted_takeWhile_dropWhile [OF sys] by blast
  have f1: "ys @ zs = takeWhile ?Q ys @ (dropWhile ?Q ys @ zs)" by simp
  have f2: "length (takeWhile ?Q ys) = r" unfolding r_def tw ..
  have f3: "\<forall>e\<in>set (takeWhile ?Q ys). le_time e \<le> time"
    by (auto dest: set_takeWhileD)
  have f4: "\<forall>e\<in>set (dropWhile ?Q ys @ zs). time < le_time e"
  proof
    fix e assume "e \<in> set (dropWhile ?Q ys @ zs)"
    then consider "e \<in> set (dropWhile ?Q ys)" | "e \<in> set zs" by auto
    then show "time < le_time e"
    proof cases
      case 1 then show ?thesis using dw by blast
    next
      case 2 then have "le_time prior \<le> le_time e" using szs by blast
      then show ?thesis using better by linarith
    qed
  qed
  show "\<exists>xs ws. ys @ zs = xs @ ws \<and> length xs = r \<and> (\<forall>e\<in>set xs. le_time e \<le> time)
           \<and> (\<forall>e\<in>set ws. time < le_time e)"
    using f1 f2 f3 f4 by (intro exI [of _ "takeWhile ?Q ys"] exI [of _ "dropWhile ?Q ys @ zs"] conjI)
qed

lemma rank_takeWhile:
  "(if findIndex P xs = - 1 then int (length xs) else findIndex P xs)
     = int (length (takeWhile (\<lambda>x. \<not> P x) xs))"
proof (cases "\<exists>x\<in>set xs. P x")
  case True
  then show ?thesis by (simp add: findIndex_takeWhile)
next
  case False
  then have tw: "takeWhile (\<lambda>x. \<not> P x) xs = xs" by (simp only: takeWhile_eq_all_conv) blast
  show ?thesis using False unfolding tw by (simp add: findIndex_takeWhile)
qed

lemma findIndex_split:
  assumes "xs = ys @ x # zs" and "\<forall>y\<in>set ys. \<not> P y" and "P x"
  shows "findIndex P xs = int (length ys)"
proof -
  have "takeWhile (\<lambda>x. \<not> P x) (ys @ x # zs) = ys"
    using assms by (simp add: takeWhile_append2)
  moreover have "\<exists>a\<in>set xs. P a" using assms by auto
  ultimately show ?thesis using assms(1) by (simp add: findIndex_takeWhile)
qed

text \<open>
  C9. Take a lap leaderboard sorted ascending by time in which the first entry whose
  nickname equals the submitted one up to letter case is \<open>prior\<close>. Submitting a time
  strictly below that of \<open>prior\<close> removes \<open>prior\<close>, puts the new entry after the entries
  with a time at most the new one and before those with a greater time, and keeps the
  first 100 entries; the result is sorted and has at most 100 entries. Submitting a time
  that is not below that of \<open>prior\<close> leaves the list as it was.
\<close>

theorem C9_submitLapTime:
  fixes lm :: LeaderboardManager and trackId nickname uuid :: string and time now :: int
    and ghostId :: "string option" and prior :: LeaderboardEntry
  defines "before \<equiv> lb_bestLapTimes (snd (getLeaderboard lm trackId))"
  defines "lm' \<equiv> fst (submitLapTime lm trackId nickname time ghostId uuid now)"
  defines "after \<equiv> lb_bestLapTimes (snd (getLeaderboard lm' trackId))"
  defines "entry \<equiv> \<lparr>le_id = uuid, le_nickname = nickname, le_time = time, le_date = now,
                      le_ghostId = ghostId\<rparr>"
  assumes sorted: "sorted (map le_time before)"
    and prior: "List.find (\<lambda>e. toLowerCase (le_nickname e) = toLowerCase nickname) before
                  = Some prior"
  shows "(time < le_time prior \<longrightarrow>
            (\<exists>xs ws. remove1 prior before = xs @ ws
                 \<and> (\<forall>e\<in>set xs. le_time e \<le> time) \<and> (\<forall>e\<in>set ws. time < le_time e)
                 \<and> after = take 100 (xs @ entry # ws))
            \<and> sorted (map le_time after) \<and> length after \<le> 100)
       \<and> (le_time prior \<le> time \<longrightarrow> after = before)"
proof -
  let ?P = "\<lambda>e. toLowerCase (le_nickname e) = toLowerCase nickname"
  obtain lm1 lb where gl: "getLeaderboard lm trackId = (lm1, lb)"
    by (cases "getLeaderboard lm trackId")
  have before: "before = lb_bestLapTimes lb" unfolding before_def gl by simp
  have cache1: "map_of (lm_leaderboards lm1) trackId = Some lb"
    using gl unfolding getLeaderboard_def
    by (auto simp: Let_def map_of_Map_set_same split: option.splits)
  obtain ys zs where split: "before = ys @ prior # zs" and ysP: "\<forall>y\<in>set ys. \<not> ?P y"
      and priorP: "?P prior"
    using find_split [OF prior] by blast
  have idx: "findIndex ?P (lb_bestLapTimes lb) = int (length ys)"
    using findIndex_split [OF split ysP priorP] unfolding before .
  have nth: "lb_bestLapTimes lb ! length ys = prior"
    using split unfolding before by simp
  define r where "r = length (takeWhile (\<lambda>e. \<not> time < le_time e) before)"
  have rk: "(if findIndex (\<lambda>e. time < le_time e) (lb_bestLapTimes lb) = - 1
             then int (length (lb_bestLapTimes lb))
             else findIndex (\<lambda>e. time < le_time e) (lb_bestLapTimes lb)) = int r"
    unfolding r_def before by (rule rank_takeWhile)
  have part2: "after = before" if "le_time prior \<le> time"
  proof -
    have "lm' = lm1"
      unfolding lm'_def submitLapTime_def gl using that
      by (simp add: Let_def idx nth)
    then show ?thesis
      unfolding after_def before by (simp add: getLeaderboard_cached [OF cache1])
  qed
  have part1: "(\<exists>xs ws. remove1 prior before = xs @ ws
                 \<and> (\<forall>e\<in>set xs. le_time e \<le> time) \<and> (\<forall>e\<in>set ws. time < le_time e)
                 \<and> after = take 100 (xs @ entry # ws))
            \<and> sorted (map le_time after) \<and> length after \<le> 100" if better: "time < le_time prior"
  proof -
    have ri: "r \<le> length ys"
      unfolding r_def by (rule submit_core(1) [OF sorted split better])
    obtain xs ws where yz: "ys @ zs = xs @ ws" and lxs: "length xs = r"
        and xs_le: "\<forall>e\<in>set xs. le_time e \<le> time" and ws_gt: "\<forall>e\<in>set ws. time < le_time e"
      using submit_core(2) [OF sorted split better] unfolding r_def by blast
    have rem: "remove1 prior before = ys @ zs"
    proof -
      have "prior \<notin> set ys" using ysP priorP by blast
      then show ?thesis unfolding split by (simp add: remove1_append)
    qed
    have sr: "splice_remove (lb_bestLapTimes lb) (int (length ys)) = xs @ ws"
      unfolding splice_remove_def before [symmetric] split yz [symmetric] by simp
    have si: "splice_insert (xs @ ws) (int r) entry = xs @ entry # ws"
      unfolding splice_insert_def using lxs by simp
    define times3 where "times3 = take 100 (xs @ entry # ws)"
    have "lm' = lm1\<lparr>lm_leaderboards := Map_set (lm_leaderboards lm1) trackId
                          (lb\<lparr>lb_bestLapTimes := times3\<rparr>),
                     lm_storage := (lm_storage lm1)(trackId \<mapsto> lb\<lparr>lb_bestLapTimes := times3\<rparr>)\<rparr>"
      unfolding lm'_def submitLapTime_def gl using better ri
      by (simp add: Let_def idx nth rk sr si times3_def MAX_LEADERBOARD_ENTRIES_def
            entry_def [symmetric])
    then have "map_of (lm_leaderboards lm') trackId = Some (lb\<lparr>lb_bestLapTimes := times3\<rparr>)"
      by (simp add: map_of_Map_set_same)
    then have after: "after = times3"
      unfolding after_def by (simp add: getLeaderboard_cached)
    have "sorted (map le_time (remove1 prior before))"
      using sorted by (rule sorted_map_remove1)
    then have "sorted (map le_time (xs @ ws))" unfolding rem yz .
    then have "sorted (map le_time (xs @ entry # ws))"
      using xs_le ws_gt by (fastforce simp: sorted_append entry_def)
    then have "sorted (take 100 (map le_time (xs @ entry # ws)))"
      by (rule sorted_wrt_take)
    then have s3: "sorted (map le_time times3)"
      unfolding times3_def by (simp only: take_map)
    have l3: "length times3 \<le> 100" unfolding times3_def by simp
    show ?thesis
      unfolding after rem yz using xs_le ws_gt s3 l3 times3_def by blast
  qed
  show ?thesis using part1 part2 by blast
qed

theorem C9_submitLapTime_witness:
  "sorted (map le_time (lb_bestLapTimes (snd (getLeaderboard ex_leaderboards ''t1''))))
   \<and> List.find (\<lambda>e. toLowerCase (le_nickname e) = toLowerCase ''BOB'')
         (lb_bestLapTimes (snd (getLeaderboard ex_leaderboards ''t1''))) = Some (ex_entry ''Bob'' 40000)
   \<and> (35000 :: int) < le_time (ex_entry ''Bob'' 40000)
   \<and> sorted (map le_time (lb_bestLapTimes (snd (getLeaderboard
         (fst (submitLapTime ex_leaderboards ''t1'' ''BOB'' 35000 None ''e9'' 7)) ''t1''))))
   \<and> length (lb_bestLapTimes (snd (getLeaderboard
         (fst (submitLapTime ex_leaderboards ''t1'' ''BOB'' 35000 None ''e9'' 7)) ''t1''))) \<le> 100
   \<and> le_time (ex_entry ''Bob'' 40000) \<le> 45000
   \<and> lb_bestLapTimes (snd (getLeaderboard
         (fst (submitLapTime ex_leaderboards ''t1'' ''BOB'' 45000 None ''e9'' 7)) ''t1''))
       = lb_bestLapTimes (snd (getLeaderboard ex_leaderboards ''t1''))"
proof -
  have low: "toLowerCase ''BOB'' = ''bob''" "toLowerCase ''Bob'' = ''bob''"
    "toLowerCase ''Ann'' = ''ann''" "toLowerCase ''Cyd'' = ''cyd''"
    by code_simp+
  have b: "lb_bestLapTimes (snd (getLeaderboard ex_leaderboards ''t1''))
             = [ex_entry ''Ann'' 30000, ex_entry ''Bob'' 40000, ex_entry ''Cyd'' 50000]"
    by (simp add: getLeaderboard_def ex_leaderboards_def)
  have s: "sorted (map le_time (lb_bestLapTimes (snd (getLeaderboard ex_leaderboards ''t1''))))"
    unfolding b by (simp add: ex_entry_def)
  have f: "List.find (\<lambda>e. toLowerCase (le_nickname e) = toLowerCase ''BOB'')
         (lb_bestLapTimes (snd (getLeaderboard ex_leaderboards ''t1''))) = Some (ex_entry ''Bob'' 40000)"
    unfolding b by (simp add: ex_entry_def low)
  have t1: "(35000 :: int) < le_time (ex_entry ''Bob'' 40000)"
    and t2: "le_time (ex_entry ''Bob'' 40000) \<le> 45000"
    by (simp_all add: ex_entry_def)
  show ?thesis
    using s f t1 t2
      C9_submitLapTime [OF s f, where time = 35000 and uuid = "''e9''" and now = 7 and ghostId = None]
      C9_submitLapTime [OF s f, where time = 45000 and uuid = "''e9''" and now = 7 and ghostId = None]
    by simp
qed

subsection \<open>C10: an input that asks for a respawn\<close>

lemma resetCar_frame:
  "map (\<lambda>(k, c). (k, ph_input c, ph_lastInputSequence c)) (pe_cars (resetCar pe playerId pos rot now))
     = map (\<lambda>(k, c). (k, ph_input c, ph_lastInputSequence c)) (pe_cars pe)"
  unfolding resetCar_def
  by (auto simp: Let_def Map_set_map_same split: option.splits)

lemma handleRespawn_frame:
  "map (\<lambda>(k, c). (k, ph_input c, ph_lastInputSequence c))
       (pe_cars (gr_physics (handleRespawn room playerId now)))
     = map (\<lambda>(k, c). (k, ph_input c, ph_lastInputSequence c)) (pe_cars (gr_physics room))"
  "map (\<lambda>(k, c). (cs_playerId c, cs_lastInputSequence c)) (gr_cars (handleRespawn room playerId now))
     = map (\<lambda>(k, c). (cs_playerId c, cs_lastInputSequence c)) (gr_cars room)"
  unfolding handleRespawn_def
  by (auto simp: Let_def Map_set_map_same resetCar_frame split: option.splits)

lemma snapshot_sequences:
  "map (\<lambda>s. (sn_playerId s, sn_lastInputSequence s)) (gss_cars (snd (createStateSnapshot room t)))
     = map (\<lambda>(k, c). (cs_playerId c, cs_lastInputSequence c)) (gr_cars room)"
  unfolding createStateSnapshot_def
  by (simp add: Let_def serializeCarState_def case_prod_beta comp_def)

lemma dropConfirmed_keeps:
  "i \<in> set xs \<Longrightarrow> s < ir_sequence i \<Longrightarrow> i \<in> set (dropConfirmed xs s)"
  by (induction xs) auto

lemma updateCars_fst_indep:
  "cl_playerId (updateFromServer store snapshot perfNow) = cl_playerId store"
  unfolding updateFromServer_def by (simp add: Let_def split: prod.splits)

lemma handleGameState_clears:
  "list_ex (isLocalRespawn (cl_playerId store)) (gss_events snapshot) \<Longrightarrow>
   pendingInputs (cl_predictor (handleGameState store snapshot perfNow)) = []"
  unfolding handleGameState_def
  by (simp add: Let_def updateCars_fst_indep resetPredictionVelocity_def)

text \<open>
  C10 (as the code has it). An input with \<^verbatim>\<open>respawn\<close> set leaves the input and the last
  input sequence of every car of the physics engine as they were, so the last input
  sequences that a snapshot reports are those from before the message. Reconciling
  against a snapshot that acknowledges a lower sequence keeps a pending record in the
  FIFO. The record leaves the FIFO when a later input is acknowledged, or when the client
  handles a snapshot with a respawn event for the local player, which empties the FIFO.
\<close>

theorem C10_respawn_input_frame:
  fixes room :: GameRoom and playerId :: string and input :: PlayerInput and now t :: int
  defines "room' \<equiv> handleInput room playerId input now"
  assumes respawn: "in_respawn input"
  shows "map (\<lambda>(k, c). (k, ph_input c, ph_lastInputSequence c)) (pe_cars (gr_physics room'))
           = map (\<lambda>(k, c). (k, ph_input c, ph_lastInputSequence c)) (pe_cars (gr_physics room))
       \<and> map (\<lambda>s. (sn_playerId s, sn_lastInputSequence s)) (gss_cars (snd (createStateSnapshot room' t)))
           = map (\<lambda>s. (sn_playerId s, sn_lastInputSequence s)) (gss_cars (snd (createStateSnapshot room t)))
       \<and> (\<forall>P serverState serverSequence perfNow i.
             i \<in> set (pendingInputs P) \<and> serverSequence < ir_sequence i \<longrightarrow>
             i \<in> set (pendingInputs (reconcileWithServer P serverState serverSequence perfNow)))
       \<and> (\<forall>store snapshot perfNow.
             list_ex (isLocalRespawn (cl_playerId store)) (gss_events snapshot) \<longrightarrow>
             pendingInputs (cl_predictor (handleGameState store snapshot perfNow)) = [])"
proof (intro conjI allI impI)
  have r: "room' = room \<or> room' = handleRespawn room playerId now"
    unfolding room'_def handleInput_def using respawn by (simp split: option.splits)
  then show "map (\<lambda>(k, c). (k, ph_input c, ph_lastInputSequence c)) (pe_cars (gr_physics room'))
           = map (\<lambda>(k, c). (k, ph_input c, ph_lastInputSequence c)) (pe_cars (gr_physics room))"
  proof
    assume "room' = room"
    then show ?thesis by simp
  next
    assume e: "room' = handleRespawn room playerId now"
    show ?thesis unfolding e by (rule handleRespawn_frame(1))
  qed
  have "map (\<lambda>(k, c). (cs_playerId c, cs_lastInputSequence c)) (gr_cars room')
            = map (\<lambda>(k, c). (cs_playerId c, cs_lastInputSequence c)) (gr_cars room)"
    using r
  proof
    assume "room' = room"
    then show ?thesis by simp
  next
    assume e: "room' = handleRespawn room playerId now"
    show ?thesis unfolding e by (rule handleRespawn_frame(2))
  qed
  then show "map (\<lambda>s. (sn_playerId s, sn_lastInputSequence s)) (gss_cars (snd (createStateSnapshot room' t)))
           = map (\<lambda>s. (sn_playerId s, sn_lastInputSequence s)) (gss_cars (snd (createStateSnapshot room t)))"
    unfolding snapshot_sequences .
next
  fix P :: Predictor and serverState :: ServerState and serverSequence :: int and perfNow :: real
    and i :: InputRecord
  assume "i \<in> set (pendingInputs P) \<and> serverSequence < ir_sequence i"
  then show "i \<in> set (pendingInputs (reconcileWithServer P serverState serverSequence perfNow))"
    unfolding reconcile_pending by (simp add: dropConfirmed_keeps)
next
  fix store :: ClientStore and snapshot :: GameStateSnapshot and perfNow :: real
  assume "list_ex (isLocalRespawn (cl_playerId store)) (gss_events snapshot)"
  then show "pendingInputs (cl_predictor (handleGameState store snapshot perfNow)) = []"
    by (rule handleGameState_clears)
qed

theorem C10_respawn_input_frame_witness:
  "in_respawn ex_respawn
   \<and> map (\<lambda>(k, c). (k, ph_input c, ph_lastInputSequence c))
         (pe_cars (gr_physics (handleInput ex_room ''p1'' ex_respawn 10)))
       = [(''p1'', None, 4)]
   \<and> ex_rec 5 \<in> set (pendingInputs ex_predictor) \<and> 4 < ir_sequence (ex_rec 5)
   \<and> ex_rec 5 \<in> set (pendingInputs (reconcileWithServer ex_predictor
        \<lparr>s_x = 300, s_y = 200, s_rotation = 0, s_vx = 0, s_vy = - 4, s_angularVelocity = None\<rparr>
        4 0))"
proof -
  have i: "in_respawn ex_respawn"
    by (simp add: ex_respawn_def ex_tilt_def)
  have p: "map (\<lambda>(k, c). (k, ph_input c, ph_lastInputSequence c)) (pe_cars (gr_physics ex_room))
             = [(''p1'', None, 4)]"
    by (simp add: ex_room_def ex_engine_def ex_phys_def)
  have f: "ex_rec 5 \<in> set (pendingInputs ex_predictor)" "4 < ir_sequence (ex_rec 5)"
    by (simp_all add: ex_predictor_def ex_rec_def)
  show ?thesis
    using i f C10_respawn_input_frame [OF i, of ex_room "''p1''" 10 20]
    unfolding p by blast
qed

text \<open>
  C10 as stated fails in its last part: the server answers the respawn input of sequence
  5 with a snapshot that acknowledges sequence 4 and carries the respawn event, and on
  that snapshot the client empties the FIFO, record 5 included.
\<close>

theorem C10_record_cleared_counterexample:
  "in_respawn ex_respawn \<and> in_sequence ex_respawn = 5
   \<and> ex_rec 5 \<in> set (pendingInputs (cl_predictor ex_client))
   \<and> map sn_lastInputSequence
        (gss_cars (snd (createStateSnapshot (handleInput ex_room ''p1'' ex_respawn 10) 20))) = [4]
   \<and> gss_events (snd (createStateSnapshot (handleInput ex_room ''p1'' ex_respawn 10) 20))
        = [EvRespawn ''p1'']
   \<and> pendingInputs (cl_predictor (handleGameState ex_client
        (snd (createStateSnapshot (handleInput ex_room ''p1'' ex_respawn 10) 20)) 30)) = []"
proof -
  let ?room' = "handleInput ex_room ''p1'' ex_respawn 10"
  let ?snap = "snd (createStateSnapshot ?room' 20)"
  have i: "in_respawn ex_respawn" "in_sequence ex_respawn = 5"
    by (simp_all add: ex_respawn_def ex_tilt_def)
  have f: "ex_rec 5 \<in> set (pendingInputs (cl_predictor ex_client))"
    by (simp add: ex_client_def ex_predictor_def)
  have c: "map_of (gr_cars ex_room) ''p1'' = Some ex_car" and st: "gr_state ex_room = rs_racing"
    and pend: "gr_pendingEvents ex_room = []"
    by (simp_all add: ex_room_def)
  have u: "\<not> cs_finished ex_car" and l: "cs_lastInputSequence ex_car = 4"
    by (simp_all add: ex_car_def createInitialCarState_def)
  have r: "?room' = handleRespawn ex_room ''p1'' 10"
    unfolding handleInput_def by (simp add: c st i)
  have ev: "gss_events ?snap = [EvRespawn ''p1'']"
    unfolding r createStateSnapshot_def handleRespawn_def
    by (simp add: Let_def c u pend split: option.splits)
  have "map (\<lambda>s. (sn_playerId s, sn_lastInputSequence s)) (gss_cars ?snap)
          = map (\<lambda>(k, c). (cs_playerId c, cs_lastInputSequence c)) (gr_cars ex_room)"
    unfolding snapshot_sequences r by (rule handleRespawn_frame(2))
  then have "map snd (map (\<lambda>s. (sn_playerId s, sn_lastInputSequence s)) (gss_cars ?snap)) = [4]"
    by (simp add: ex_room_def l)
  then have sq: "map sn_lastInputSequence (gss_cars ?snap) = [4]"
    by (simp add: comp_def)
  have "list_ex (isLocalRespawn (cl_playerId ex_client)) (gss_events ?snap)"
    unfolding ev by (simp add: isLocalRespawn_def ex_client_def)
  then have cl: "pendingInputs (cl_predictor (handleGameState ex_client ?snap 30)) = []"
    by (rule handleGameState_clears)
  show ?thesis using i f sq ev cl by (intro conjI)
qed

end
